theory Spec2Isabelle
  imports Main "HOL-Library.Word" "HOL-Library.Sublist"
begin

section \<open>The environment of deptyr.c\<close>

text \<open>
  deptyr.c is a sequence of system and library calls whose results decide the control
  flow.  The embedding runs the program against a script: the list of answers the
  environment gives to the calls, in the order in which the calls are made.  Every
  function of the source becomes a function from the script to the trace of events it
  produced and the way it stopped.  The functions of \<open>unix_socket.h\<close> and
  \<open>platform/platform.h\<close> (\<open>connect_server\<close>, \<open>create_server\<close>, \<open>recv_file_descriptor\<close>,
  \<open>send_file_descriptor\<close>, \<open>get_pt\<close>) are calls like those of the C library.  The program
  is modelled as compiled without \<open>WITH_SYSTEMD\<close>.
\<close>

type_synonym byte = "8 word"
type_synonym fd = int
type_synonym errno = int

text \<open>The value of \<open>EINTR\<close> comes from \<open>errno.h\<close>; only its being distinct from 0 matters.\<close>

definition EINTR :: errno where
  "EINTR = 4"

text \<open>Error numbers of \<open>errno.h\<close> used as examples of failures.\<close>

definition ENOTTY :: errno where
  "ENOTTY = 25"

definition EIO :: errno where
  "EIO = 5"

text \<open>The number of descriptors that an \<open>fd_set\<close> of \<open>sys/select.h\<close> has room for.\<close>

definition FD_SETSIZE :: int where
  "FD_SETSIZE = 1024"

text \<open>\<open>struct winsize\<close> of \<open>sys/ioctl.h\<close>: four unsigned shorts, in this order.\<close>

record winsize =
  ws_row :: "16 word"
  ws_col :: "16 word"
  ws_xpixel :: "16 word"
  ws_ypixel :: "16 word"

text \<open>
  The calls of the program, with the arguments that the program chooses.  The type
  \<open>'t\<close> stands for \<open>struct termios\<close>; a \<open>struct termios\<close> argument is \<open>None\<close> when the
  variable passed was never filled in.  In the same way the name passed to \<open>setenv\<close> and
  \<open>open\<close> is \<open>None\<close> when \<open>ptsname_r\<close> failed and left the array as it was.
\<close>

datatype 't call =
    Tcgetattr fd
  | Tcsetattr fd "'t option"
  | Ioctl_TIOCGWINSZ fd
  | Ioctl_TIOCSWINSZ fd winsize
  | Write fd "byte list"
  | Read fd nat
  | Sigprocmask_block_SIGWINCH
  | Sigaction_SIGWINCH
  | Pselect int "fd list"
  | Connect_server string
  | Create_server string
  | Accept fd
  | Recv_file_descriptor fd
  | Send_file_descriptor fd fd
  | Close fd
  | Get_pt
  | Unlockpt fd
  | Grantpt fd
  | Ptsname_r fd
  | Setenv string "string option"
  | Getppid
  | Setpgid int int
  | Setsid
  | Open_rdonly "string option"
  | Open_wronly "string option"
  | Dup2 fd fd
  | Execvp "string list"

text \<open>
  The answers of the environment.  \<open>Ok n\<close>: the call succeeds and returns \<open>n\<close>.
  \<open>Fail e\<close>: the call returns -1 and sets \<open>errno\<close> to \<open>e\<close>.  \<open>Attrs\<close>, \<open>Size\<close>, \<open>Bytes\<close>
  and \<open>Name\<close> are the successes of \<open>tcgetattr\<close>, \<open>ioctl(TIOCGWINSZ)\<close>, \<open>read\<close> and
  \<open>ptsname_r\<close>, with the data they store.  \<open>Ready\<close> is a return of \<open>pselect\<close> with the
  descriptors left in the set.  \<open>Sigwinch\<close> is the delivery of SIGWINCH inside
  \<open>pselect\<close> (the only place where the program leaves the signal unblocked): the
  handler \<open>do_winch\<close> runs and \<open>pselect\<close> returns -1 with \<open>errno = EINTR\<close>.
\<close>

datatype 't resp =
    Ok int
  | Fail errno
  | Attrs 't
  | Size winsize
  | Bytes "byte list"
  | Name string
  | Ready "fd list"
  | Sigwinch

text \<open>
  The events of a trace: an answered call, a message on standard error (the format
  string is kept as it is, \<open>%m\<close> included), and the \<open>printf\<close> of \<open>main\<close> with its format
  and its \<open>%s\<close> argument.
\<close>

datatype 't event =
    Sys "'t call" "'t resp"
  | Stderr string
  | Stdout string "string option"

text \<open>
  How a run stops short of returning: \<open>exit\<close> (or a \<open>return\<close> from \<open>main\<close>) with a status,
  a successful \<open>execvp\<close>, the read of a variable that was never assigned, an access
  outside an object, or a call for which the script holds no answer (the program is
  inside that call).  After \<open>Uninitialized_read\<close> and \<open>Out_of_bounds\<close> the behaviour of the C
  program is undefined, and the run is not followed any further.
\<close>

datatype 't stop = Exits int | Execs | Uninitialized_read | Out_of_bounds | Pending "'t call"

datatype ('a, 't) result = Returns 'a "'t resp list" | Stops "'t stop"

type_synonym ('a, 't) prog = "'t resp list \<Rightarrow> 't event list \<times> ('a, 't) result"

definition return :: "'a \<Rightarrow> ('a, 't) prog" where
  "return a s = ([], Returns a s)"

definition stop :: "'t stop \<Rightarrow> ('a, 't) prog" where
  "stop x s = ([], Stops x)"

definition bind :: "('a, 't) prog \<Rightarrow> ('a \<Rightarrow> ('b, 't) prog) \<Rightarrow> ('b, 't) prog" where
  "bind m f s =
     (case m s of
        (es, Returns a s') \<Rightarrow> (case f a s' of (es', r) \<Rightarrow> (es @ es', r))
      | (es, Stops x) \<Rightarrow> (es, Stops x))"

definition emit :: "'t event \<Rightarrow> (unit, 't) prog" where
  "emit e s = ([e], Returns () s)"

text \<open>
  The return value of an answered call as the C code reads it: a failing call returns -1.
\<close>

fun rv :: "errno + int \<Rightarrow> int" where
  "rv (Inl e) = - 1"
| "rv (Inr n) = n"

text \<open>
  The value of \<open>errno\<close> after a call: the error of a failing call; a successful call
  leaves \<open>errno\<close> alone, and the code reads it after a success only where it has set it
  to 0 before the call.
\<close>

fun errno_of :: "errno + 'a \<Rightarrow> errno" where
  "errno_of (Inl e) = e"
| "errno_of (Inr n) = 0"

subsection \<open>The calls\<close>

text \<open>
  Each call takes the next answer of the script and returns \<open>Inl errno\<close> when it fails
  and \<open>Inr\<close> of its result when it succeeds.  A call returning an \<open>int\<close> succeeds with a
  non-negative value.
\<close>

fun sys_int :: "'t call \<Rightarrow> (errno + int, 't) prog" where
  "sys_int c (Ok n # s) =
     (if 0 \<le> n then ([Sys c (Ok n)], Returns (Inr n) s) else ([], Stops (Pending c)))"
| "sys_int c (Fail e # s) = ([Sys c (Fail e)], Returns (Inl e) s)"
| "sys_int c _ = ([], Stops (Pending c))"

text \<open>\<open>write(fd, buf, count)\<close> is given the first \<open>count\<close> bytes at \<open>buf\<close> and never reports
  more than \<open>count\<close> bytes.\<close>

fun sys_write :: "fd \<Rightarrow> byte list \<Rightarrow> int \<Rightarrow> (errno + int, 't) prog" where
  "sys_write fd buf count (Ok n # s) =
     (if 0 \<le> n \<and> n \<le> count
      then ([Sys (Write fd (take (nat count) buf)) (Ok n)], Returns (Inr n) s)
      else ([], Stops (Pending (Write fd (take (nat count) buf)))))"
| "sys_write fd buf count (Fail e # s) =
     ([Sys (Write fd (take (nat count) buf)) (Fail e)], Returns (Inl e) s)"
| "sys_write fd buf count _ = ([], Stops (Pending (Write fd (take (nat count) buf))))"

text \<open>\<open>read(fd, buf, n)\<close> stores at most \<open>n\<close> bytes at the start of \<open>buf\<close> and returns their
  number; the result is the return value together with the buffer after the call.\<close>

fun sys_read :: "fd \<Rightarrow> byte list \<Rightarrow> nat \<Rightarrow> (int \<times> byte list, 't) prog" where
  "sys_read fd buf n (Bytes bs # s) =
     (if length bs \<le> n
      then ([Sys (Read fd n) (Bytes bs)], Returns (int (length bs), bs @ drop (length bs) buf) s)
      else ([], Stops (Pending (Read fd n))))"
| "sys_read fd buf n (Fail e # s) = ([Sys (Read fd n) (Fail e)], Returns (- 1, buf) s)"
| "sys_read fd buf n _ = ([], Stops (Pending (Read fd n)))"

fun sys_tcgetattr :: "fd \<Rightarrow> (errno + 't, 't) prog" where
  "sys_tcgetattr fd (Attrs t # s) = ([Sys (Tcgetattr fd) (Attrs t)], Returns (Inr t) s)"
| "sys_tcgetattr fd (Fail e # s) = ([Sys (Tcgetattr fd) (Fail e)], Returns (Inl e) s)"
| "sys_tcgetattr fd _ = ([], Stops (Pending (Tcgetattr fd)))"

fun sys_gwinsz :: "fd \<Rightarrow> (errno + winsize, 't) prog" where
  "sys_gwinsz fd (Size sz # s) = ([Sys (Ioctl_TIOCGWINSZ fd) (Size sz)], Returns (Inr sz) s)"
| "sys_gwinsz fd (Fail e # s) = ([Sys (Ioctl_TIOCGWINSZ fd) (Fail e)], Returns (Inl e) s)"
| "sys_gwinsz fd _ = ([], Stops (Pending (Ioctl_TIOCGWINSZ fd)))"

fun sys_ptsname_r :: "fd \<Rightarrow> (errno + string, 't) prog" where
  "sys_ptsname_r fd (Name n # s) = ([Sys (Ptsname_r fd) (Name n)], Returns (Inr n) s)"
| "sys_ptsname_r fd (Fail e # s) = ([Sys (Ptsname_r fd) (Fail e)], Returns (Inl e) s)"
| "sys_ptsname_r fd _ = ([], Stops (Pending (Ptsname_r fd)))"

text \<open>\<open>pselect\<close>: the first component of the result tells whether \<open>do_winch\<close> ran during
  the call.\<close>

fun sys_pselect :: "int \<Rightarrow> fd list \<Rightarrow> (bool \<times> (errno + fd list), 't) prog" where
  "sys_pselect nfds fdset (Ready fds # s) =
     ([Sys (Pselect nfds fdset) (Ready fds)], Returns (False, Inr fds) s)"
| "sys_pselect nfds fdset (Fail e # s) =
     ([Sys (Pselect nfds fdset) (Fail e)], Returns (False, Inl e) s)"
| "sys_pselect nfds fdset (Sigwinch # s) =
     ([Sys (Pselect nfds fdset) Sigwinch], Returns (True, Inl EINTR) s)"
| "sys_pselect nfds fdset _ = ([], Stops (Pending (Pselect nfds fdset)))"

text \<open>\<open>execvp\<close> returns only when it fails.\<close>

fun sys_execvp :: "string list \<Rightarrow> (errno, 't) prog" where
  "sys_execvp args (Ok n # s) = ([Sys (Execvp args) (Ok n)], Stops Execs)"
| "sys_execvp args (Fail e # s) = ([Sys (Execvp args) (Fail e)], Returns e s)"
| "sys_execvp args _ = ([], Stops (Pending (Execvp args)))"

section \<open>Diagnostics\<close>

definition nl :: string where
  "nl = [CHR 0x0A]"

text \<open>\<open>die\<close>: \<open>_debug\<close> prints the prefix, the message and a newline; then \<open>exit(1)\<close>.\<close>

definition die :: "string \<Rightarrow> ('a, 't) prog" where
  "die msg = bind (emit (Stderr (''[!] '' @ msg @ nl))) (\<lambda>_. stop (Exits 1))"

definition usage :: "string \<Rightarrow> (unit, 't) prog" where
  "usage me =
     bind (emit (Stderr (''Usage: '' @ me @ '' -s socket CMD'' @ nl))) (\<lambda>_.
     bind (emit (Stderr (''       '' @ me @ '' -S socket'' @ nl))) (\<lambda>_.
     bind (emit (Stderr (''  -H Act as the head: Proxy input and output to the program'' @ nl))) (\<lambda>_.
     bind (emit (Stderr (''  -s Connect to a running proxy and exec the program'' @ nl))) (\<lambda>_.
     emit (Stderr nl)))))"

section \<open>Terminal mode\<close>

text \<open>
  \<open>setup_raw\<close> returns nothing; its result here is the content of \<open>*save\<close> after the
  call.  \<open>cfmakeraw\<close> is a library function on \<open>struct termios\<close> and a parameter.
\<close>

definition setup_raw :: "('t \<Rightarrow> 't) \<Rightarrow> 't option \<Rightarrow> ('t option, 't) prog" where
  "setup_raw cfmakeraw save =
     bind (sys_tcgetattr 0) (\<lambda>r.
       case r of
         Inl e \<Rightarrow>
           bind (emit (Stderr ''Unable to read terminal attributes: %m'')) (\<lambda>_. return save)
       | Inr t \<Rightarrow>
           bind (sys_int (Tcsetattr 0 (Some (cfmakeraw t)))) (\<lambda>r'.
             if rv r' < 0 then die ''Unable to set terminal attributes: %m''
             else return (Some t)))"

section \<open>Window size\<close>

definition defaultsize :: winsize where
  "defaultsize = \<lparr>ws_row = 30, ws_col = 80, ws_xpixel = 640, ws_ypixel = 480\<rparr>"

definition resize_pty :: "fd \<Rightarrow> (unit, 't) prog" where
  "resize_pty pty =
     bind (sys_gwinsz 0) (\<lambda>r.
       case r of
         Inl e \<Rightarrow>
           bind (sys_int (Ioctl_TIOCSWINSZ pty defaultsize)) (\<lambda>r'.
             if rv r' < 0 then emit (Stderr (''Cannot set terminal size'' @ nl))
             else return ())
       | Inr sz \<Rightarrow> bind (sys_int (Ioctl_TIOCSWINSZ pty sz)) (\<lambda>_. return ()))"

section \<open>writeall\<close>

text \<open>
  Each iteration of the loop makes one \<open>write\<close>, and \<open>buf += rv\<close> is \<open>drop\<close>.  The script
  gets shorter with every answered call, which is the termination argument of the
  loops of this program.
\<close>

lemma bind_cong [fundef_cong]:
  "m s = m' s' \<Longrightarrow> (\<And>es a s1. m' s' = (es, Returns a s1) \<Longrightarrow> f a s1 = f' a s1)
   \<Longrightarrow> bind m f s = bind m' f' s'"
  by (auto simp: bind_def split: prod.splits result.splits)

lemma sys_write_shorter:
  "sys_write fd buf count s = (es, Returns r s') \<Longrightarrow> length s' < length s"
  by (induction fd buf count s rule: sys_write.induct) (auto split: if_splits)

function writeall :: "fd \<Rightarrow> byte list \<Rightarrow> int \<Rightarrow> (int, 't) prog" where
  "writeall fd buf count s =
     (if count > 0 then
        bind (sys_write fd buf count) (\<lambda>r s'.
          if rv r < 0 then
            (if errno_of r = EINTR then writeall fd buf count s'
             else return (rv r) s')
          else writeall fd (drop (nat (rv r)) buf) (count - rv r) s') s
      else return 0 s)"
  by pat_completeness auto
termination
  by (relation "measure (\<lambda>(fd, buf, count, s). length s)") (auto dest: sys_write_shorter)

declare writeall.simps [simp del]

section \<open>The proxy loop\<close>

text \<open>
  Script bookkeeping for the termination proofs: a program never lengthens the script,
  and a call that returns has taken its answer from it.
\<close>

definition shrinks :: "('a, 't) prog \<Rightarrow> bool" where
  "shrinks m \<longleftrightarrow> (\<forall>s es a s'. m s = (es, Returns a s') \<longrightarrow> length s' \<le> length s)"

definition consumes :: "('a, 't) prog \<Rightarrow> bool" where
  "consumes m \<longleftrightarrow> (\<forall>s es a s'. m s = (es, Returns a s') \<longrightarrow> length s' < length s)"

lemma consumes_shrinks: "consumes m \<Longrightarrow> shrinks m"
  unfolding consumes_def shrinks_def by (blast intro: less_imp_le)

lemma shrinks_return [simp]: "shrinks (return a)"
  by (simp add: shrinks_def return_def)

lemma shrinks_stop [simp]: "shrinks (stop x)"
  by (simp add: shrinks_def stop_def)

lemma shrinks_emit [simp]: "shrinks (emit e)"
  by (simp add: shrinks_def emit_def)

lemma bind_Returns:
  "bind m f s = (es, Returns b s'') \<longleftrightarrow>
   (\<exists>es1 a s' es2. m s = (es1, Returns a s') \<and> f a s' = (es2, Returns b s'') \<and> es = es1 @ es2)"
  by (auto simp: bind_def split: prod.splits result.splits)

lemma shrinks_bind: "shrinks m \<Longrightarrow> (\<And>a. shrinks (f a)) \<Longrightarrow> shrinks (bind m f)"
  unfolding shrinks_def bind_Returns by (meson le_trans)

lemma consumes_bind: "consumes m \<Longrightarrow> (\<And>a. shrinks (f a)) \<Longrightarrow> consumes (bind m f)"
  unfolding shrinks_def consumes_def bind_Returns by (meson le_less_trans)

lemma consumes_sys_int [simp]: "consumes (sys_int c)"
  unfolding consumes_def by (auto elim!: sys_int.elims split: if_splits)

lemma consumes_sys_write [simp]: "consumes (sys_write fd buf count)"
  unfolding consumes_def by (auto elim!: sys_write.elims split: if_splits)

lemma consumes_sys_read [simp]: "consumes (sys_read fd buf n)"
  unfolding consumes_def by (auto elim!: sys_read.elims split: if_splits)

lemma consumes_sys_tcgetattr [simp]: "consumes (sys_tcgetattr fd)"
  unfolding consumes_def by (auto elim!: sys_tcgetattr.elims)

lemma consumes_sys_gwinsz [simp]: "consumes (sys_gwinsz fd)"
  unfolding consumes_def by (auto elim!: sys_gwinsz.elims)

lemma consumes_sys_pselect [simp]: "consumes (sys_pselect nfds fdset)"
  unfolding consumes_def by (auto elim!: sys_pselect.elims)

lemma writeall_done: "\<not> count > 0 \<Longrightarrow> writeall fd buf count s = return 0 s"
  by (simp add: writeall.simps)

lemma writeall_step:
  "count > 0 \<Longrightarrow> writeall fd buf count s =
     bind (sys_write fd buf count) (\<lambda>r s'.
          if rv r < 0 then
            (if errno_of r = EINTR then writeall fd buf count s'
             else return (rv r) s')
          else writeall fd (drop (nat (rv r)) buf) (count - rv r) s') s"
  by (subst writeall.simps) simp

lemma shrinks_writeall [simp]: "shrinks (writeall fd buf count)"
  unfolding shrinks_def
proof (intro allI impI)
  fix s es a s' assume "writeall fd buf count s = (es, Returns a s')"
  then show "length s' \<le> length s"
  proof (induction fd buf count s arbitrary: es rule: writeall.induct)
    case (1 fd buf count s)
    show ?case
    proof (cases "count > 0")
      case False
      with "1.prems" show ?thesis by (simp add: writeall_done return_def)
    next
      case True
      from "1.prems" obtain es1 r s1 es2 where
        w: "sys_write fd buf count s = (es1, Returns r s1)" and
        k: "(if rv r < 0 then (if errno_of r = EINTR then writeall fd buf count s1
                               else return (rv r) s1)
             else writeall fd (drop (nat (rv r)) buf) (count - rv r) s1) = (es2, Returns a s')"
        unfolding writeall_step[OF True, of fd buf s] bind_Returns by blast
      from w have l: "length s1 < length s" by (rule sys_write_shorter)
      have "length s' \<le> length s1"
      proof (cases "rv r < 0")
        case neg: True
        show ?thesis
        proof (cases "errno_of r = EINTR")
          case True
          with k neg show ?thesis using "1.IH"(1)[OF \<open>count > 0\<close> w neg True] by simp
        next
          case False
          with k neg show ?thesis by (simp add: return_def)
        qed
      next
        case False
        with k show ?thesis using "1.IH"(2)[OF \<open>count > 0\<close> w False] by simp
      qed
      with l show ?thesis by simp
    qed
  qed
qed

lemma shrinks_bind_simp [simp]: "shrinks m \<Longrightarrow> \<forall>a. shrinks (f a) \<Longrightarrow> shrinks (bind m f)"
  by (simp add: shrinks_bind)

lemma consumes_bind_simp [simp]: "consumes m \<Longrightarrow> \<forall>a. shrinks (f a) \<Longrightarrow> consumes (bind m f)"
  by (simp add: consumes_bind)

lemma shrinks_sys [simp]:
  "shrinks (sys_int c)" "shrinks (sys_write fd buf count)" "shrinks (sys_read fd buf n)"
  "shrinks (sys_tcgetattr fd)" "shrinks (sys_gwinsz fd)" "shrinks (sys_pselect nfds fdset)"
  by (simp_all add: consumes_shrinks)

lemma shrinks_resize_pty [simp]: "shrinks (resize_pty pty)"
  unfolding resize_pty_def by (simp split: sum.split)

text \<open>
  An \<open>fd_set\<close> is an array of \<open>FD_SETSIZE\<close> bits, used as a set of descriptors; it is
  modelled by the list of its members, in the order in which they were added.  \<open>FD_SET\<close>
  makes no range check: with a descriptor that is negative or not below \<open>FD_SETSIZE\<close> it
  writes outside the array.  \<open>FD_ISSET\<close> is only applied to descriptors that \<open>FD_SET\<close> has
  been applied to before.
\<close>

definition FD_ZERO :: "fd list" where
  "FD_ZERO = []"

definition FD_SET :: "fd \<Rightarrow> fd list \<Rightarrow> (fd list, 't) prog" where
  "FD_SET fd fdset =
     (if 0 \<le> fd \<and> fd < FD_SETSIZE
      then return (if fd \<in> set fdset then fdset else fdset @ [fd])
      else stop Out_of_bounds)"

definition FD_ISSET :: "fd \<Rightarrow> fd list \<Rightarrow> bool" where
  "FD_ISSET fd fdset \<longleftrightarrow> fd \<in> set fdset"

lemma shrinks_FD_SET [simp]: "shrinks (FD_SET fd fdset)"
  by (simp add: FD_SET_def)

text \<open>
  The two \<open>if (FD_ISSET(...))\<close> blocks of the loop body, lines 172 to 177 and 178 to 183.
  A \<open>return\<close> inside a block leaves \<open>do_proxy\<close>, which is the flow \<open>Return_now\<close>; the
  second component of the result is \<open>buf\<close> after the block.  The result of \<open>writeall\<close> is
  not looked at.
\<close>

datatype flow = Next | Return_now

definition proxy_stdin :: "fd \<Rightarrow> byte list \<Rightarrow> (flow \<times> byte list, 't) prog" where
  "proxy_stdin pty buf =
     bind (sys_read 0 buf 4096) (\<lambda>(count, buf).
       if count < 0 then return (Return_now, buf)
       else bind (writeall pty buf count) (\<lambda>_. return (Next, buf)))"

definition proxy_pty :: "fd \<Rightarrow> byte list \<Rightarrow> (flow \<times> byte list, 't) prog" where
  "proxy_pty pty buf =
     bind (sys_read pty buf 4096) (\<lambda>(count, buf).
       if count \<le> 0 then return (Return_now, buf)
       else bind (writeall 1 buf count) (\<lambda>_. return (Next, buf)))"

text \<open>
  One pass through the body of \<open>while (1)\<close>.  The result is the flow (\<open>Next\<close> for
  \<open>continue\<close> and for reaching the end of the body), the flag \<open>winch_happened\<close> and \<open>buf\<close>.
  The flag is 0 when \<open>pselect\<close> is called, so after the call it tells whether \<open>do_winch\<close>
  ran during the call.
\<close>

definition proxy_iteration :: "fd \<Rightarrow> bool \<Rightarrow> byte list \<Rightarrow> (flow \<times> bool \<times> byte list, 't) prog" where
  "proxy_iteration pty winch_happened buf =
     bind (if winch_happened then resize_pty pty else return ()) (\<lambda>_.
     bind (FD_SET 0 FD_ZERO) (\<lambda>fdset.
     bind (FD_SET pty fdset) (\<lambda>fdset.
     bind (sys_pselect (pty + 1) fdset) (\<lambda>(winch_happened, r).
       case r of
         Inl errno \<Rightarrow>
           if errno = EINTR then return (Next, winch_happened, buf)
           else bind (emit (Stderr ''select: %m'')) (\<lambda>_. return (Return_now, winch_happened, buf))
       | Inr fdset \<Rightarrow>
           bind (if FD_ISSET 0 fdset then proxy_stdin pty buf else return (Next, buf)) (\<lambda>(flow, buf).
             if flow = Return_now then return (Return_now, winch_happened, buf)
             else
           bind (if FD_ISSET pty fdset then proxy_pty pty buf else return (Next, buf)) (\<lambda>(flow, buf).
             return (flow, winch_happened, buf)))))))"

lemma shrinks_proxy_stdin [simp]: "shrinks (proxy_stdin pty buf)"
  unfolding proxy_stdin_def by (simp split: prod.split)

lemma shrinks_proxy_pty [simp]: "shrinks (proxy_pty pty buf)"
  unfolding proxy_pty_def by (simp split: prod.split)

lemma shrinks_consumes_bind: "shrinks m \<Longrightarrow> (\<And>a. consumes (f a)) \<Longrightarrow> consumes (bind m f)"
  unfolding shrinks_def consumes_def bind_Returns by (meson less_le_trans)

lemma consumes_proxy_iteration [simp]: "consumes (proxy_iteration pty w buf)"
  unfolding proxy_iteration_def
proof (rule shrinks_consumes_bind)
  show "shrinks (if w then resize_pty pty else return ())" by simp
next
  fix u :: unit
  show "consumes (bind (FD_SET 0 FD_ZERO) (\<lambda>fdset.
     bind (FD_SET pty fdset) (\<lambda>fdset.
     bind (sys_pselect (pty + 1) fdset) (\<lambda>(winch_happened, r).
       case r of
         Inl errno \<Rightarrow>
           if errno = EINTR then return (Next, winch_happened, buf)
           else bind (emit (Stderr ''select: %m'')) (\<lambda>_. return (Return_now, winch_happened, buf))
       | Inr fdset \<Rightarrow>
           bind (if FD_ISSET 0 fdset then proxy_stdin pty buf else return (Next, buf)) (\<lambda>(flow, buf).
             if flow = Return_now then return (Return_now, winch_happened, buf)
             else
           bind (if FD_ISSET pty fdset then proxy_pty pty buf else return (Next, buf)) (\<lambda>(flow, buf).
             return (flow, winch_happened, buf)))))))"
    by (intro shrinks_consumes_bind[of "FD_SET fd fdset" for fd fdset] shrinks_FD_SET)
       (simp split: prod.split sum.split)
qed

function proxy_loop :: "fd \<Rightarrow> bool \<Rightarrow> byte list \<Rightarrow> (bool, 't) prog" where
  "proxy_loop pty winch_happened buf s =
     bind (proxy_iteration pty winch_happened buf) (\<lambda>x s'.
       case x of (flow, winch_happened, buf) \<Rightarrow>
         if flow = Return_now then return winch_happened s'
         else proxy_loop pty winch_happened buf s') s"
  by pat_completeness auto
termination
proof (relation "measure (\<lambda>(pty, w, buf, s). length s)", goal_cases)
  case 1
  show ?case by simp
next
  case (2 pty w buf s es a s1 x y xa ya)
  then have "length s1 < length s"
    using consumes_proxy_iteration[of pty w buf] unfolding consumes_def by blast
  then show ?case by simp
qed

declare proxy_loop.simps [simp del]

text \<open>
  \<open>do_proxy\<close> returns nothing; its result here is the global flag \<open>winch_happened\<close> as it
  leaves it.  Its arguments are the descriptor, the flag, and what the local array \<open>buf\<close>
  holds when the function is entered.
\<close>

definition do_proxy :: "fd \<Rightarrow> bool \<Rightarrow> byte list \<Rightarrow> (bool, 't) prog" where
  "do_proxy pty winch_happened buf =
     bind (sys_int Sigprocmask_block_SIGWINCH) (\<lambda>r.
       if rv r = - 1 then
         bind (emit (Stderr ''sigprocmask: %m'')) (\<lambda>_. return winch_happened)
       else
         bind (sys_int Sigaction_SIGWINCH) (\<lambda>_.
         bind (resize_pty pty) (\<lambda>_.
         proxy_loop pty winch_happened buf)))"

section \<open>main\<close>

text \<open>A local variable without initializer holds nothing until it is assigned.\<close>

fun read_var :: "'a option \<Rightarrow> ('a, 't) prog" where
  "read_var None = stop Uninitialized_read"
| "read_var (Some v) = return v"

text \<open>The \<open>do ... while (errno == EINTR)\<close> loop of \<open>main\<close> that puts the saved attributes
  back.\<close>

function restore_termios :: "'t option \<Rightarrow> (unit, 't) prog" where
  "restore_termios saved_termios s =
     bind (sys_int (Tcsetattr 0 saved_termios)) (\<lambda>r s'.
       if rv r \<noteq> 0 \<and> errno_of r \<noteq> EINTR then die ''Unable to tcsetattr: %m'' s'
       else if errno_of r = EINTR then restore_termios saved_termios s'
       else return () s') s"
  by pat_completeness auto
termination
proof (relation "measure (\<lambda>(saved, s). length s)", goal_cases)
  case 1
  show ?case by simp
next
  case (2 saved s es a s1)
  then have "length s1 < length s"
    using consumes_sys_int[of "Tcsetattr 0 saved"] unfolding consumes_def by blast
  then show ?case by simp
qed

declare restore_termios.simps [simp del]

text \<open>The body of the \<open>while\<close> loop of the head, for an accepted \<open>connection\<close>.  The
  result is \<open>saved_termios\<close> and \<open>winch_happened\<close> after the session.\<close>

definition head_session ::
  "('t \<Rightarrow> 't) \<Rightarrow> 't option \<Rightarrow> bool \<Rightarrow> byte list \<Rightarrow> fd \<Rightarrow> ('t option \<times> bool, 't) prog" where
  "head_session cfmakeraw saved_termios winch_happened buf connection =
     bind (sys_int (Recv_file_descriptor connection)) (\<lambda>r.
       let pty = rv r in
       if pty < 0 then die (''Oof, didn'' @ [CHR 0x27] @ ''t get a child FD: %m'')
       else
     bind (sys_int (Close connection)) (\<lambda>r.
       if rv r < 0 then die ''close: %m''
       else
     bind (setup_raw cfmakeraw saved_termios) (\<lambda>saved_termios.
     bind (do_proxy pty winch_happened buf) (\<lambda>winch_happened.
     bind (restore_termios saved_termios) (\<lambda>_.
     bind (sys_int (Close pty)) (\<lambda>_.
     return (saved_termios, winch_happened)))))))"


lemma shrinks_read_var [simp]: "shrinks (read_var v)"
  by (cases v) simp_all

lemma shrinks_die [simp]: "shrinks (die msg)"
  unfolding die_def by simp

lemma shrinks_setup_raw [simp]: "shrinks (setup_raw cfmakeraw save)"
  unfolding setup_raw_def by (simp split: sum.split)

lemma proxy_loop_step:
  "proxy_loop pty w buf s =
     bind (proxy_iteration pty w buf) (\<lambda>x s'.
       case x of (flow, winch_happened, buf) \<Rightarrow>
         if flow = Return_now then return winch_happened s'
         else proxy_loop pty winch_happened buf s') s"
  by (rule proxy_loop.simps)

lemma shrinks_proxy_loop [simp]: "shrinks (proxy_loop pty w buf)"
  unfolding shrinks_def
proof (intro allI impI)
  fix s es a s' assume "proxy_loop pty w buf s = (es, Returns a s')"
  then show "length s' \<le> length s"
  proof (induction pty w buf s arbitrary: es rule: proxy_loop.induct)
    case (1 pty w buf s)
    from "1.prems" obtain es1 x s1 es2 where
      it: "proxy_iteration pty w buf s = (es1, Returns x s1)" and
      k: "(case x of (flow, w', buf') \<Rightarrow>
            if flow = Return_now then return w' s1 else proxy_loop pty w' buf' s1) = (es2, Returns a s')"
      unfolding proxy_loop_step[of pty w buf s] bind_Returns by blast
    from it have l: "length s1 < length s"
      using consumes_proxy_iteration[of pty w buf] unfolding consumes_def by blast
    obtain flow w' buf' where x: "x = (flow, w', buf')" by (cases x) auto
    have "length s' \<le> length s1"
    proof (cases "flow = Return_now")
      case True
      with k x show ?thesis by (simp add: return_def)
    next
      case False
      with k x have "proxy_loop pty w' buf' s1 = (es2, Returns a s')" by simp
      with "1.IH"[OF it _ _ False, of "(w', buf')" w' buf' es2] x show ?thesis by simp
    qed
    with l show ?case by simp
  qed
qed

lemma shrinks_do_proxy [simp]: "shrinks (do_proxy pty w buf)"
  unfolding do_proxy_def by simp

lemma restore_termios_step:
  "restore_termios saved s =
     bind (sys_int (Tcsetattr 0 saved)) (\<lambda>r s'.
       if rv r \<noteq> 0 \<and> errno_of r \<noteq> EINTR then die ''Unable to tcsetattr: %m'' s'
       else if errno_of r = EINTR then restore_termios saved s'
       else return () s') s"
  by (rule restore_termios.simps)

lemma shrinks_restore_termios [simp]: "shrinks (restore_termios saved)"
  unfolding shrinks_def
proof (intro allI impI)
  fix s es a s' assume "restore_termios saved s = (es, Returns a s')"
  then show "length s' \<le> length s"
  proof (induction saved s arbitrary: es rule: restore_termios.induct)
    case (1 saved s)
    from "1.prems" obtain es1 r s1 es2 where
      c: "sys_int (Tcsetattr 0 saved) s = (es1, Returns r s1)" and
      k: "(if rv r \<noteq> 0 \<and> errno_of r \<noteq> EINTR then die ''Unable to tcsetattr: %m'' s1
           else if errno_of r = EINTR then restore_termios saved s1
           else return () s1) = (es2, Returns a s')"
      unfolding restore_termios_step[of saved s] bind_Returns by blast
    from c have l: "length s1 < length s"
      using consumes_sys_int[of "Tcsetattr 0 saved"] unfolding consumes_def by blast
    have "length s' \<le> length s1"
    proof (cases "rv r \<noteq> 0 \<and> errno_of r \<noteq> EINTR")
      case True
      with k show ?thesis by (simp add: die_def bind_def emit_def stop_def)
    next
      case False
      show ?thesis
      proof (cases "errno_of r = EINTR")
        case True
        with k False have "restore_termios saved s1 = (es2, Returns a s')" by simp
        with "1.IH"[OF c False True] show ?thesis by simp
      next
        case e: False
        with k False show ?thesis by (simp add: return_def)
      qed
    qed
    with l show ?case by simp
  qed
qed

lemma shrinks_head_session [simp]: "shrinks (head_session cfmakeraw saved w buf connection)"
  unfolding head_session_def by (simp add: Let_def)

text \<open>The \<open>while\<close> loop of the head with the \<open>die\<close> that follows it.\<close>

function head_loop ::
  "('t \<Rightarrow> 't) \<Rightarrow> int option \<Rightarrow> 't option \<Rightarrow> bool \<Rightarrow> byte list \<Rightarrow> ('a, 't) prog" where
  "head_loop cfmakeraw socket saved_termios winch_happened buf s =
     bind (read_var socket) (\<lambda>sock s1.
     bind (sys_int (Accept sock)) (\<lambda>r s2.
       if 0 \<le> rv r then
         bind (head_session cfmakeraw saved_termios winch_happened buf (rv r)) (\<lambda>x s'.
           case x of (saved_termios, winch_happened) \<Rightarrow>
             head_loop cfmakeraw socket saved_termios winch_happened buf s') s2
       else die ''accept: %m'' s2) s1) s"
  by pat_completeness auto
termination
proof (relation "measure (\<lambda>(cfmakeraw, socket, saved, w, buf, s). length s)", goal_cases)
  case 1
  show ?case by simp
next
  case (2 cfmakeraw socket saved w buf s es sock s1 es1 r s2 es2 x s3 saved' w')
  have "length s1 \<le> length s"
    using 2(1) shrinks_read_var[of socket] unfolding shrinks_def by blast
  moreover have "length s2 < length s1"
    using 2(2) consumes_sys_int[of "Accept sock"] unfolding consumes_def by blast
  moreover have "length s3 \<le> length s2"
    using 2(4) shrinks_head_session[of cfmakeraw saved w buf "rv r"] unfolding shrinks_def by blast
  ultimately show ?case by simp
qed

declare head_loop.simps [simp del]

text \<open>The \<open>else\<close> branch of \<open>main\<close>.  \<open>ptyname\<close> is filled in by \<open>ptsname_r\<close>, whose result
  is not looked at.\<close>

definition attacher :: "int option \<Rightarrow> string list \<Rightarrow> ('a, 't) prog" where
  "attacher socket cmd =
     bind (sys_int Get_pt) (\<lambda>r.
       let pty = rv r in
       if pty < 0 then die ''Unable to allocate a new pseudo-terminal: %m''
       else
     bind (sys_int (Unlockpt pty)) (\<lambda>r.
       if rv r < 0 then die ''Unable to unlockpt: %m''
       else
     bind (sys_int (Grantpt pty)) (\<lambda>r.
       if rv r < 0 then die ''Unable to grantpt: %m''
       else
     bind (sys_ptsname_r pty) (\<lambda>r.
       let ptyname = (case r of Inl e \<Rightarrow> None | Inr n \<Rightarrow> Some n) in
     bind (emit (Stdout (''Opened a new pty: %s'' @ nl) ptyname)) (\<lambda>_.
     bind (read_var socket) (\<lambda>sock.
     bind (sys_int (Send_file_descriptor sock pty)) (\<lambda>r.
       if rv r < 0 then die ''Unable to send the master handle: %m''
       else
     bind (sys_int (Setenv ''REPTYR_PTY'' ptyname)) (\<lambda>_.
     bind (sys_int Getppid) (\<lambda>ppid.
     bind (sys_int (Setpgid 0 (rv ppid))) (\<lambda>_.
     bind (sys_int Setsid) (\<lambda>_.
     bind (sys_int (Open_rdonly ptyname)) (\<lambda>f.
     bind (sys_int (Dup2 (rv f) 0)) (\<lambda>_.
     bind (sys_int (Close (rv f))) (\<lambda>_.
     bind (sys_int (Open_wronly ptyname)) (\<lambda>f.
     bind (sys_int (Dup2 (rv f) 1)) (\<lambda>_.
     bind (sys_int (Dup2 (rv f) 2)) (\<lambda>_.
     bind (sys_int (Close (rv f))) (\<lambda>_.
     bind (sys_int (Close pty)) (\<lambda>_.
     bind (sys_execvp cmd) (\<lambda>_.
     die ''execvp failed: %m''))))))))))))))))))))"

text \<open>
  The option loop.  \<open>getopt\<close> is a library function: the loop is run on the list of the
  values that \<open>getopt\<close> returns before -1, each with its \<open>optarg\<close>.  A \<open>return\<close> from \<open>main\<close>
  ends the process with that status.
\<close>

datatype opt = Opt_h | Opt_V | Opt_s string | Opt_H string | Opt_other

record main_vars =
  verbose :: bool
  act_as_proxy :: bool
  socket :: "int option"

fun getopt_loop :: "string \<Rightarrow> opt list \<Rightarrow> main_vars \<Rightarrow> (main_vars, 't) prog" where
  "getopt_loop me [] v = return v"
| "getopt_loop me (Opt_h # opts) v = bind (usage me) (\<lambda>_. stop (Exits 0))"
| "getopt_loop me (Opt_V # opts) v = getopt_loop me opts (v\<lparr>verbose := True\<rparr>)"
| "getopt_loop me (Opt_s optarg # opts) v =
     bind (sys_int (Connect_server optarg)) (\<lambda>r.
     getopt_loop me opts (v\<lparr>socket := Some (rv r)\<rparr>))"
| "getopt_loop me (Opt_H optarg # opts) v =
     bind (sys_int (Create_server optarg)) (\<lambda>r.
     getopt_loop me opts (v\<lparr>socket := Some (rv r), act_as_proxy := True\<rparr>))"
| "getopt_loop me (Opt_other # opts) v = bind (usage me) (\<lambda>_. stop (Exits 1))"

text \<open>
  \<open>main\<close>, for \<open>argv[0] = me\<close>, the options \<open>opts\<close> and the arguments \<open>cmd\<close> that follow
  them (\<open>argv[optind]\<close> and up, so \<open>optind >= argc\<close> is \<open>cmd = []\<close>).  \<open>buf\<close> is what the
  array of \<open>do_proxy\<close> holds when the function is entered.
\<close>

definition main :: "('t \<Rightarrow> 't) \<Rightarrow> string \<Rightarrow> opt list \<Rightarrow> string list \<Rightarrow> byte list \<Rightarrow> ('a, 't) prog" where
  "main cfmakeraw me opts cmd buf =
     bind (getopt_loop me opts \<lparr>verbose = False, act_as_proxy = False, socket = None\<rparr>) (\<lambda>v.
       if \<not> act_as_proxy v \<and> cmd = [] then
         bind (emit (Stderr (me @ '': No command specified'' @ nl))) (\<lambda>_.
         bind (usage me) (\<lambda>_.
         stop (Exits 1)))
       else if act_as_proxy v then head_loop cfmakeraw (socket v) None False buf
       else attacher (socket v) cmd)"

section \<open>Observations on traces\<close>

text \<open>The bytes that the successful writes of a trace have put on a descriptor, in order.\<close>

fun written :: "fd \<Rightarrow> 't event list \<Rightarrow> byte list" where
  "written fd [] = []"
| "written fd (Sys (Write fd' bs) (Ok n) # es) =
     (if fd' = fd then take (nat n) bs else []) @ written fd es"
| "written fd (e # es) = written fd es"

text \<open>A call that failed with an error other than \<open>EINTR\<close>.\<close>

fun hard_failure :: "'t event \<Rightarrow> bool" where
  "hard_failure (Sys c (Fail e)) = (e \<noteq> EINTR)"
| "hard_failure e = False"

text \<open>\<open>resumes fd rest es\<close>: the trace consists of writes on \<open>fd\<close>, and each of them is given
  exactly the bytes of \<open>rest\<close> that the writes before it have not taken.\<close>

fun resumes :: "fd \<Rightarrow> byte list \<Rightarrow> 't event list \<Rightarrow> bool" where
  "resumes fd rest [] = True"
| "resumes fd rest (Sys (Write fd' bs) (Ok n) # es) =
     (fd' = fd \<and> bs = rest \<and> resumes fd (drop (nat n) rest) es)"
| "resumes fd rest (Sys (Write fd' bs) (Fail e) # es) =
     (fd' = fd \<and> bs = rest \<and> resumes fd rest es)"
| "resumes fd rest (e # es) = False"

text \<open>\<open>pre es x\<close> puts the events \<open>es\<close> before the trace of the run \<open>x\<close>.\<close>

definition pre :: "'t event list \<Rightarrow> 't event list \<times> ('a, 't) result \<Rightarrow> 't event list \<times> ('a, 't) result" where
  "pre es x = (es @ fst x, snd x)"

text \<open>What a run of \<open>writeall\<close> on the bytes \<open>bytes\<close> looks like: it returns 0 with all the
  bytes written, or -1 right after the first failure that is not an interruption, or it
  is inside a \<open>write\<close> of the bytes that remain.\<close>

definition writeall_post :: "fd \<Rightarrow> byte list \<Rightarrow> 't event list \<times> (int, 't) result \<Rightarrow> bool" where
  "writeall_post fd bytes x =
     (case x of (es, r) \<Rightarrow>
        resumes fd bytes es \<and>
        (case r of
           Returns v s' \<Rightarrow>
             (v = 0 \<and> written fd es = bytes \<and> (\<forall>e\<in>set es. \<not> hard_failure e)) \<or>
             (v = - 1 \<and> es \<noteq> [] \<and> hard_failure (last es) \<and> (\<forall>e\<in>set (butlast es). \<not> hard_failure e) \<and>
              strict_prefix (written fd es) bytes)
         | Stops x \<Rightarrow>
             x = Pending (Write fd (drop (length (written fd es)) bytes)) \<and>
             (\<forall>e\<in>set es. \<not> hard_failure e) \<and> strict_prefix (written fd es) bytes))"

text \<open>The value that the C code gets from an answered call, and the answers that a call
  returning an \<open>int\<close> can get.\<close>

fun rv_of :: "'t resp \<Rightarrow> int" where
  "rv_of (Ok n) = n"
| "rv_of a = - 1"

fun int_answer :: "'t resp \<Rightarrow> bool" where
  "int_answer (Ok n) = (0 \<le> n)"
| "int_answer (Fail e) = True"
| "int_answer a = False"

text \<open>The calls of \<open>tcsetattr\<close>.\<close>

fun is_tcsetattr :: "'t event \<Rightarrow> bool" where
  "is_tcsetattr (Sys (Tcsetattr fd t) a) = True"
| "is_tcsetattr e = False"

text \<open>\<open>harmless_at m s\<close>: run on the script \<open>s\<close>, the program \<open>m\<close> does not call \<open>tcsetattr\<close>, and
  it either returns or is inside a call: it does not end the process.\<close>

definition harmless_at :: "('a, 't) prog \<Rightarrow> 't resp list \<Rightarrow> bool" where
  "harmless_at m s \<longleftrightarrow>
     (\<forall>e\<in>set (fst (m s)). \<not> is_tcsetattr e) \<and>
     (\<forall>x. snd (m s) = Stops x \<longrightarrow> (\<exists>c. x = Pending c))"




text \<open>The lines that \<open>usage\<close> prints.\<close>

definition usage_events :: "string \<Rightarrow> 't event list" where
  "usage_events me =
     [Stderr (''Usage: '' @ me @ '' -s socket CMD'' @ nl),
      Stderr (''       '' @ me @ '' -S socket'' @ nl),
      Stderr (''  -H Act as the head: Proxy input and output to the program'' @ nl),
      Stderr (''  -s Connect to a running proxy and exec the program'' @ nl),
      Stderr nl]"

lemma bind_pre: "m s = (es, Returns a s') \<Longrightarrow> bind m f s = pre es (f a s')"
  by (simp add: bind_def pre_def split: prod.splits)

lemma bind_Stops: "m s = (es, Stops x) \<Longrightarrow> bind m f s = (es, Stops x)"
  by (simp add: bind_def)

lemma writeall_Nil:
  "count > 0 \<Longrightarrow> writeall fd buf count [] = ([], Stops (Pending (Write fd (take (nat count) buf))))"
  by (simp add: writeall_step bind_def)

lemma writeall_Ok:
  "count > 0 \<Longrightarrow> 0 \<le> n \<Longrightarrow> n \<le> count \<Longrightarrow>
   writeall fd buf count (Ok n # s) =
   pre [Sys (Write fd (take (nat count) buf)) (Ok n)] (writeall fd (drop (nat n) buf) (count - n) s)"
  by (subst writeall_step) (simp_all add: bind_pre)

lemma writeall_EINTR:
  "count > 0 \<Longrightarrow>
   writeall fd buf count (Fail EINTR # s) =
   pre [Sys (Write fd (take (nat count) buf)) (Fail EINTR)] (writeall fd buf count s)"
  by (subst writeall_step) (simp_all add: bind_pre)

lemma writeall_Fail:
  "count > 0 \<Longrightarrow> e \<noteq> EINTR \<Longrightarrow>
   writeall fd buf count (Fail e # s) =
   ([Sys (Write fd (take (nat count) buf)) (Fail e)], Returns (- 1) s)"
  by (subst writeall_step) (simp_all add: bind_pre pre_def return_def)

lemma writeall_no_answer:
  "count > 0 \<Longrightarrow> (\<forall>n. a = Ok n \<longrightarrow> \<not> (0 \<le> n \<and> n \<le> count)) \<Longrightarrow> (\<forall>e. a \<noteq> Fail e) \<Longrightarrow>
   writeall fd buf count (a # s) = ([], Stops (Pending (Write fd (take (nat count) buf))))"
  by (subst writeall_step, assumption, cases a) (auto simp: bind_def)

lemma strict_prefix_append: "strict_prefix w ys \<Longrightarrow> strict_prefix (xs @ w) (xs @ ys)"
  by (auto simp: strict_prefix_def)

lemma writeall_post_Ok:
  assumes "writeall_post fd (drop n bytes) x" "n \<le> length bytes"
  shows "writeall_post fd bytes (pre [Sys (Write fd bytes) (Ok (int n))] x)"
proof -
  obtain es r where x: "x = (es, r)" by (cases x)
  have app: "take n bytes @ drop n bytes = bytes" by simp
  have sp: "strict_prefix w (drop n bytes) \<Longrightarrow> strict_prefix (take n bytes @ w) bytes" for w
    using strict_prefix_append[of w "drop n bytes" "take n bytes"] by simp
  have len: "length (take n bytes @ w) = n + length w" for w :: "byte list"
    using assms(2) by simp
  show ?thesis
    using assms(1) unfolding x writeall_post_def pre_def
    by (cases r) (auto simp: sp len add.commute min_absorb2 assms(2) split: if_splits)
qed

lemma writeall_post_EINTR:
  assumes "writeall_post fd bytes x"
  shows "writeall_post fd bytes (pre [Sys (Write fd bytes) (Fail EINTR)] x)"
proof -
  obtain es r where x: "x = (es, r)" by (cases x)
  show ?thesis
    using assms(1) unfolding x writeall_post_def pre_def
    by (cases r) (auto split: if_splits)
qed

lemma writeall_trace:
  assumes "0 \<le> count" "nat count \<le> length buf"
  shows "writeall_post fd (take (nat count) buf) (writeall fd buf count s)"
  using assms
proof (induction s arbitrary: buf count)
  case Nil
  show ?case
  proof (cases "count > 0")
    case True
    with Nil show ?thesis
      by (auto simp: writeall_Nil writeall_post_def strict_prefix_def)
  next
    case False
    with Nil show ?thesis
      by (simp add: writeall_done return_def writeall_post_def)
  qed
next
  case (Cons a s)
  show ?case
  proof (cases "count > 0")
    case False
    with Cons.prems show ?thesis
      by (simp add: writeall_done return_def writeall_post_def)
  next
    case pos: True
    let ?bytes = "take (nat count) buf"
    have ne: "?bytes \<noteq> []" using pos Cons.prems by auto
    consider (ok) n where "a = Ok n" "0 \<le> n" "n \<le> count"
      | (eintr) "a = Fail EINTR"
      | (fail) e where "a = Fail e" "e \<noteq> EINTR"
      | (none) "\<forall>n. a = Ok n \<longrightarrow> \<not> (0 \<le> n \<and> n \<le> count)" "\<forall>e. a \<noteq> Fail e"
      by (cases a) auto
    then show ?thesis
    proof cases
      case ok
      have d: "drop (nat n) ?bytes = take (nat (count - n)) (drop (nat n) buf)"
        using ok by (simp add: drop_take nat_diff_distrib)
      have "writeall_post fd (take (nat (count - n)) (drop (nat n) buf))
              (writeall fd (drop (nat n) buf) (count - n) s)"
        using ok Cons.prems by (intro Cons.IH) auto
      then have "writeall_post fd ?bytes
              (pre [Sys (Write fd ?bytes) (Ok (int (nat n)))] (writeall fd (drop (nat n) buf) (count - n) s))"
        using ok Cons.prems by (intro writeall_post_Ok) (auto simp: d)
      then show ?thesis using ok pos by (simp add: writeall_Ok)
    next
      case eintr
      from Cons.IH[OF Cons.prems] show ?thesis
        unfolding eintr writeall_EINTR[OF pos] by (rule writeall_post_EINTR)
    next
      case fail
      then show ?thesis using pos ne
        by (simp add: writeall_Fail writeall_post_def strict_prefix_def)
    next
      case none
      then show ?thesis using pos ne
        by (simp add: writeall_no_answer writeall_post_def strict_prefix_def)
    qed
  qed
qed

section \<open>Claims about writeall\<close>

text \<open>
  C8.  For every descriptor, every buffer holding at least \<open>count\<close> bytes and every
  non-negative \<open>count\<close>, and whatever the environment answers: every \<open>write\<close> of
  \<open>writeall\<close> is given exactly the bytes not yet written (a short write is resumed
  behind the bytes it took, an interrupted write is repeated); \<open>writeall\<close> returns 0
  exactly when the \<open>count\<close> bytes have been written, in order; it returns a negative
  value exactly when a \<open>write\<close> failed with an error other than \<open>EINTR\<close>, and that \<open>write\<close>
  is then the first such failure and the last call, with a proper prefix of the
  bytes written; and when it has not returned, it is inside a \<open>write\<close> of the
  remaining bytes.
\<close>

theorem writeall_spec:
  assumes "0 \<le> count" and "nat count \<le> length buf" and "writeall fd buf count s = (es, r)"
  shows "resumes fd (take (nat count) buf) es \<and>
         ((\<exists>s'. r = Returns 0 s') \<longleftrightarrow> written fd es = take (nat count) buf) \<and>
         ((\<exists>v s'. r = Returns v s' \<and> v < 0) \<longleftrightarrow> (\<exists>e\<in>set es. hard_failure e)) \<and>
         ((\<exists>e\<in>set es. hard_failure e) \<longrightarrow>
            hard_failure (last es) \<and> (\<forall>e\<in>set (butlast es). \<not> hard_failure e) \<and>
            strict_prefix (written fd es) (take (nat count) buf)) \<and>
         (\<forall>x. r = Stops x \<longrightarrow>
            x = Pending (Write fd (drop (length (written fd es)) (take (nat count) buf))))"
proof -
  let ?bytes = "take (nat count) buf"
  have post: "writeall_post fd ?bytes (es, r)"
    using writeall_trace[OF assms(1,2), of fd s] assms(3) by simp
  show ?thesis
  proof (cases r)
    case (Returns v s')
    with post consider
      (all) "v = 0" "written fd es = ?bytes" "\<forall>e\<in>set es. \<not> hard_failure e"
      | (err) "v = - 1" "es \<noteq> []" "hard_failure (last es)" "\<forall>e\<in>set (butlast es). \<not> hard_failure e"
          "strict_prefix (written fd es) ?bytes"
      unfolding writeall_post_def by auto
    then show ?thesis
    proof cases
      case all
      with post Returns show ?thesis by (simp add: writeall_post_def)
    next
      case err
      have "last es \<in> set es" using err(2) by simp
      with err(3) have ex: "\<exists>e\<in>set es. hard_failure e" by blast
      from err(5) have ne: "written fd es \<noteq> ?bytes" by (simp add: strict_prefix_def)
      from post have "resumes fd ?bytes es" by (simp add: writeall_post_def)
      with Returns err ex ne show ?thesis by simp
    qed
  next
    case (Stops x)
    with post have
      p: "x = Pending (Write fd (drop (length (written fd es)) ?bytes))"
         "\<forall>e\<in>set es. \<not> hard_failure e" "strict_prefix (written fd es) ?bytes"
         "resumes fd ?bytes es"
      unfolding writeall_post_def by auto
    from p(3) have ne: "written fd es \<noteq> ?bytes" by (simp add: strict_prefix_def)
    with Stops p show ?thesis by simp
  qed
qed

theorem writeall_spec_witness:
  "(0::int) \<le> 4 \<and> nat 4 \<le> length [1, 2, 3, 4, 5 :: byte] \<and>
   writeall 3 [1, 2, 3, 4, 5] 4 [Ok 1, Fail EINTR, Ok 2, Ok 0, Ok 1, Ok 7 :: unit resp] =
     ([Sys (Write 3 [1, 2, 3, 4]) (Ok 1), Sys (Write 3 [2, 3, 4]) (Fail EINTR),
       Sys (Write 3 [2, 3, 4]) (Ok 2), Sys (Write 3 [4]) (Ok 0), Sys (Write 3 [4]) (Ok 1)],
      Returns 0 [Ok 7]) \<and>
   written 3 [Sys (Write 3 [1, 2, 3, 4]) (Ok 1), Sys (Write 3 [2, 3, 4]) (Fail EINTR),
       Sys (Write 3 [2, 3, 4]) (Ok 2), Sys (Write 3 [4]) (Ok 0), Sys (Write 3 [4]) (Ok 1 :: unit resp)]
     = [1, 2, 3, 4 :: byte] \<and>
   writeall 3 [1, 2, 3, 4, 5] 4 [Ok 1, Fail EINTR, Ok 2, Fail 5, Ok 1 :: unit resp] =
     ([Sys (Write 3 [1, 2, 3, 4]) (Ok 1), Sys (Write 3 [2, 3, 4]) (Fail EINTR),
       Sys (Write 3 [2, 3, 4]) (Ok 2), Sys (Write 3 [4]) (Fail 5)],
      Returns (- 1) [Ok 1]) \<and>
   strict_prefix
     (written 3 [Sys (Write 3 [1, 2, 3, 4]) (Ok 1), Sys (Write 3 [2, 3, 4]) (Fail EINTR),
       Sys (Write 3 [2, 3, 4]) (Ok 2), Sys (Write 3 [4]) (Fail (5 :: int)) :: unit event])
     [1, 2, 3, 4 :: byte]"
proof -
  have h1: "(0::int) \<le> 4" and h2: "nat 4 \<le> length [1, 2, 3, 4, 5 :: byte]"
    by simp_all
  have run: "writeall 3 [1, 2, 3, 4, 5] 4 [Ok 1, Fail EINTR, Ok 2, Ok 0, Ok 1, Ok 7 :: unit resp] =
     ([Sys (Write 3 [1, 2, 3, 4]) (Ok 1), Sys (Write 3 [2, 3, 4]) (Fail EINTR),
       Sys (Write 3 [2, 3, 4]) (Ok 2), Sys (Write 3 [4]) (Ok 0), Sys (Write 3 [4]) (Ok 1)],
      Returns 0 [Ok 7])"
    by code_simp
  have run': "writeall 3 [1, 2, 3, 4, 5] 4 [Ok 1, Fail EINTR, Ok 2, Fail 5, Ok 1 :: unit resp] =
     ([Sys (Write 3 [1, 2, 3, 4]) (Ok 1), Sys (Write 3 [2, 3, 4]) (Fail EINTR),
       Sys (Write 3 [2, 3, 4]) (Ok 2), Sys (Write 3 [4]) (Fail 5)],
      Returns (- 1) [Ok 1])"
    by code_simp
  have "written 3 [Sys (Write 3 [1, 2, 3, 4]) (Ok 1), Sys (Write 3 [2, 3, 4]) (Fail EINTR),
       Sys (Write 3 [2, 3, 4]) (Ok 2), Sys (Write 3 [4]) (Ok 0), Sys (Write 3 [4]) (Ok 1 :: unit resp)]
     = take (nat 4) [1, 2, 3, 4, 5 :: byte]"
    using writeall_spec[OF h1 h2 run] by blast
  then have w: "written 3 [Sys (Write 3 [1, 2, 3, 4]) (Ok 1), Sys (Write 3 [2, 3, 4]) (Fail EINTR),
       Sys (Write 3 [2, 3, 4]) (Ok 2), Sys (Write 3 [4]) (Ok 0), Sys (Write 3 [4]) (Ok 1 :: unit resp)]
     = [1, 2, 3, 4 :: byte]"
    by simp
  have "strict_prefix
     (written 3 [Sys (Write 3 [1, 2, 3, 4]) (Ok 1), Sys (Write 3 [2, 3, 4]) (Fail EINTR),
       Sys (Write 3 [2, 3, 4]) (Ok 2), Sys (Write 3 [4]) (Fail (5 :: int)) :: unit event])
     (take (nat 4) [1, 2, 3, 4, 5 :: byte])"
  proof -
    have "\<exists>e\<in>set [Sys (Write 3 [1, 2, 3, 4]) (Ok 1), Sys (Write 3 [2, 3, 4]) (Fail EINTR),
       Sys (Write 3 [2, 3, 4]) (Ok 2), Sys (Write 3 [4]) (Fail (5 :: int)) :: unit event]. hard_failure e"
      by (simp add: EINTR_def)
    with writeall_spec[OF h1 h2 run'] show ?thesis by (elim conjE impE)
  qed
  then have p: "strict_prefix
     (written 3 [Sys (Write 3 [1, 2, 3, 4]) (Ok 1), Sys (Write 3 [2, 3, 4]) (Fail EINTR),
       Sys (Write 3 [2, 3, 4]) (Ok 2), Sys (Write 3 [4]) (Fail (5 :: int)) :: unit event])
     [1, 2, 3, 4 :: byte]"
    by simp
  from h1 h2 run run' w p show ?thesis by (intro conjI)
qed

section \<open>Running a program on a script\<close>

text \<open>Rules that run the calls of a program against the head of the script.\<close>

lemma pre_pair [simp]: "pre es (es', r) = (es @ es', r)"
  by (simp add: pre_def)

lemma pre_pre [simp]: "pre es (pre es' x) = pre (es @ es') x"
  by (simp add: pre_def)

lemma pre_Nil [simp]: "pre [] x = x"
  by (simp add: pre_def)

lemma fst_pre [simp]: "fst (pre es x) = es @ fst x"
  by (simp add: pre_def)

lemma snd_pre [simp]: "snd (pre es x) = snd x"
  by (simp add: pre_def)

lemma bind_assoc: "bind (bind m f) g s = bind m (\<lambda>a. bind (f a) g) s"
  by (auto simp: bind_def split: prod.splits result.splits)

lemma bind_return: "bind (return a) f s = f a s"
  by (simp add: bind_def return_def split: prod.splits)

lemma bind_stop: "bind (stop x) f s = ([], Stops x)"
  by (simp add: bind_def stop_def)

lemma bind_emit: "bind (emit e) f s = pre [e] (f () s)"
  by (simp add: bind_def emit_def pre_def split: prod.splits)

lemma bind_if: "bind (if c then m else n) f s = (if c then bind m f s else bind n f s)"
  by simp

lemma bind_die: "bind (die msg) f s = ([Stderr (''[!] '' @ msg @ nl)], Stops (Exits 1))"
  by (simp add: die_def bind_def emit_def stop_def)

lemma die_run: "die msg s = ([Stderr (''[!] '' @ msg @ nl)], Stops (Exits 1))"
  by (simp add: die_def bind_def emit_def stop_def)

lemma if_run: "(if c then m else n) s = (if c then m s else n s)"
  by simp

lemma bind_sys_int_Ok:
  "0 \<le> n \<Longrightarrow> bind (sys_int c) f (Ok n # s) = pre [Sys c (Ok n)] (f (Inr n) s)"
  by (simp add: bind_def pre_def split: prod.splits)

lemma bind_sys_int_Fail:
  "bind (sys_int c) f (Fail e # s) = pre [Sys c (Fail e)] (f (Inl e) s)"
  by (simp add: bind_def pre_def split: prod.splits)

lemma bind_sys_tcgetattr_Attrs:
  "bind (sys_tcgetattr fd) f (Attrs t # s) = pre [Sys (Tcgetattr fd) (Attrs t)] (f (Inr t) s)"
  by (simp add: bind_def pre_def split: prod.splits)

lemma bind_sys_tcgetattr_Fail:
  "bind (sys_tcgetattr fd) f (Fail e # s) = pre [Sys (Tcgetattr fd) (Fail e)] (f (Inl e) s)"
  by (simp add: bind_def pre_def split: prod.splits)

lemma bind_sys_gwinsz_Size:
  "bind (sys_gwinsz fd) f (Size sz # s) = pre [Sys (Ioctl_TIOCGWINSZ fd) (Size sz)] (f (Inr sz) s)"
  by (simp add: bind_def pre_def split: prod.splits)

lemma bind_sys_gwinsz_Fail:
  "bind (sys_gwinsz fd) f (Fail e # s) = pre [Sys (Ioctl_TIOCGWINSZ fd) (Fail e)] (f (Inl e) s)"
  by (simp add: bind_def pre_def split: prod.splits)

lemma bind_sys_ptsname_r_Name:
  "bind (sys_ptsname_r fd) f (Name n # s) = pre [Sys (Ptsname_r fd) (Name n)] (f (Inr n) s)"
  by (simp add: bind_def pre_def split: prod.splits)

lemma bind_sys_ptsname_r_Fail:
  "bind (sys_ptsname_r fd) f (Fail e # s) = pre [Sys (Ptsname_r fd) (Fail e)] (f (Inl e) s)"
  by (simp add: bind_def pre_def split: prod.splits)

lemma bind_sys_read_Bytes:
  "length bs \<le> n \<Longrightarrow>
   bind (sys_read fd buf n) f (Bytes bs # s) =
   pre [Sys (Read fd n) (Bytes bs)] (f (int (length bs), bs @ drop (length bs) buf) s)"
  by (simp add: bind_def pre_def split: prod.splits)

lemma bind_sys_read_Fail:
  "bind (sys_read fd buf n) f (Fail e # s) = pre [Sys (Read fd n) (Fail e)] (f (- 1, buf) s)"
  by (simp add: bind_def pre_def split: prod.splits)

lemma bind_sys_pselect_Ready:
  "bind (sys_pselect nfds fdset) f (Ready fds # s) =
   pre [Sys (Pselect nfds fdset) (Ready fds)] (f (False, Inr fds) s)"
  by (simp add: bind_def pre_def split: prod.splits)

lemma bind_sys_pselect_Fail:
  "bind (sys_pselect nfds fdset) f (Fail e # s) =
   pre [Sys (Pselect nfds fdset) (Fail e)] (f (False, Inl e) s)"
  by (simp add: bind_def pre_def split: prod.splits)

lemma bind_sys_pselect_Sigwinch:
  "bind (sys_pselect nfds fdset) f (Sigwinch # s) =
   pre [Sys (Pselect nfds fdset) Sigwinch] (f (True, Inl EINTR) s)"
  by (simp add: bind_def pre_def split: prod.splits)

lemma bind_sys_execvp_Ok:
  "bind (sys_execvp args) f (Ok n # s) = ([Sys (Execvp args) (Ok n)], Stops Execs)"
  by (simp add: bind_def)

lemma bind_sys_execvp_Fail:
  "bind (sys_execvp args) f (Fail e # s) = pre [Sys (Execvp args) (Fail e)] (f e s)"
  by (simp add: bind_def pre_def split: prod.splits)

lemma bind_read_var_Some: "bind (read_var (Some v)) f s = f v s"
  by (simp add: bind_return)

lemma bind_read_var_None: "bind (read_var None) f s = ([], Stops Uninitialized_read)"
  by (simp add: bind_stop)

lemmas run =
  bind_assoc bind_return bind_stop bind_emit bind_die die_run if_run
  bind_sys_int_Ok bind_sys_int_Fail bind_sys_tcgetattr_Attrs bind_sys_tcgetattr_Fail
  bind_sys_gwinsz_Size bind_sys_gwinsz_Fail bind_sys_ptsname_r_Name bind_sys_ptsname_r_Fail
  bind_sys_read_Bytes bind_sys_read_Fail bind_sys_pselect_Ready bind_sys_pselect_Fail
  bind_sys_pselect_Sigwinch bind_sys_execvp_Ok bind_sys_execvp_Fail
  bind_read_var_Some bind_read_var_None Let_def

section \<open>Claims about the window size\<close>

text \<open>
  C6.  When the size of the controlling terminal cannot be read because standard input
  is not a terminal, \<open>resize_pty\<close> gives the pseudo-terminal the fixed size of 30 rows and
  80 columns and returns to its caller, also when the pseudo-terminal refuses the size.
\<close>

theorem resize_pty_fallback:
  "resize_pty pty (Fail ENOTTY # Ok 0 # s) =
     ([Sys (Ioctl_TIOCGWINSZ 0) (Fail ENOTTY), Sys (Ioctl_TIOCSWINSZ pty defaultsize) (Ok 0)],
      Returns () s) \<and>
   resize_pty pty (Fail ENOTTY # Fail e # s) =
     ([Sys (Ioctl_TIOCGWINSZ 0) (Fail ENOTTY), Sys (Ioctl_TIOCSWINSZ pty defaultsize) (Fail e),
       Stderr (''Cannot set terminal size'' @ nl)],
      Returns () s) \<and>
   ws_col defaultsize = 80 \<and> ws_row defaultsize = 30"
  by (simp add: resize_pty_def bind_def return_def emit_def defaultsize_def)

text \<open>
  C4, as stated, fails: the size query fails with \<open>EIO\<close>, which is not \<open>ENOTTY\<close>, and the
  fallback size is applied all the same.
\<close>

theorem resize_pty_other_error_counterexample:
  "EIO \<noteq> ENOTTY \<and>
   resize_pty 5 [Fail EIO, Ok 0 :: unit resp] =
     ([Sys (Ioctl_TIOCGWINSZ 0) (Fail EIO),
       Sys (Ioctl_TIOCSWINSZ 5 \<lparr>ws_row = 30, ws_col = 80, ws_xpixel = 640, ws_ypixel = 480\<rparr>) (Ok 0)],
      Returns () [])"
  by (simp add: resize_pty_def bind_def return_def defaultsize_def EIO_def ENOTTY_def)

text \<open>
  C4, amended.  When the size query fails, for whatever reason (\<open>errno\<close> is not looked at),
  \<open>resize_pty\<close> applies the fallback size to the pseudo-terminal; when that fails too it
  prints a message; in both cases it returns to its caller.
\<close>

theorem resize_pty_any_error:
  "resize_pty pty (Fail e # Ok 0 # s) =
     ([Sys (Ioctl_TIOCGWINSZ 0) (Fail e), Sys (Ioctl_TIOCSWINSZ pty defaultsize) (Ok 0)],
      Returns () s) \<and>
   resize_pty pty (Fail e # Fail e' # s) =
     ([Sys (Ioctl_TIOCGWINSZ 0) (Fail e), Sys (Ioctl_TIOCSWINSZ pty defaultsize) (Fail e'),
       Stderr (''Cannot set terminal size'' @ nl)],
      Returns () s)"
  by (simp add: resize_pty_def bind_def return_def emit_def)

section \<open>Claims about raw mode\<close>

text \<open>
  C3, as stated, fails.  Standard input is not a terminal and \<open>tcgetattr\<close> fails in a
  session of the head: \<open>setup_raw\<close> returns to \<open>main\<close> as it does after a success, and
  \<open>main\<close> goes on with \<open>do_proxy\<close>, which relays the bytes \<open>hi\<close> from the pseudo-terminal 5
  to standard output until the pseudo-terminal is closed; nothing aborts the session
  before it has run.
\<close>

theorem setup_raw_failure_counterexample:
  "setup_raw Suc None [Fail ENOTTY] =
     ([Sys (Tcgetattr 0) (Fail ENOTTY), Stderr ''Unable to read terminal attributes: %m''],
      Returns None []) \<and>
   head_session Suc None False [] 4
     [Ok 5, Ok 0, Fail ENOTTY, Ok 0, Ok 0, Fail ENOTTY, Ok 0,
      Ready [5], Bytes [104, 105], Ok 2, Ready [5], Bytes [], Fail ENOTTY] =
     ([Sys (Recv_file_descriptor 4) (Ok 5), Sys (Close 4) (Ok 0),
       Sys (Tcgetattr 0) (Fail ENOTTY), Stderr ''Unable to read terminal attributes: %m'',
       Sys Sigprocmask_block_SIGWINCH (Ok 0), Sys Sigaction_SIGWINCH (Ok 0),
       Sys (Ioctl_TIOCGWINSZ 0) (Fail ENOTTY),
       Sys (Ioctl_TIOCSWINSZ 5 \<lparr>ws_row = 30, ws_col = 80, ws_xpixel = 640, ws_ypixel = 480\<rparr>) (Ok 0),
       Sys (Pselect 6 [0, 5]) (Ready [5]), Sys (Read 5 4096) (Bytes [104, 105]),
       Sys (Write 1 [104, 105]) (Ok 2), Sys (Pselect 6 [0, 5]) (Ready [5]),
       Sys (Read 5 4096) (Bytes []), Sys (Tcsetattr 0 None) (Fail ENOTTY),
       Stderr (''[!] Unable to tcsetattr: %m'' @ nl)],
      Stops (Exits 1))"
  by code_simp

text \<open>
  C3, amended.  When \<open>tcgetattr\<close> fails, \<open>setup_raw\<close> prints a message and returns without
  any other call, so that it changes no terminal state and leaves the variable for the
  snapshot as it was; it has no result that could tell the failure.  The caller does
  not abort the session: the next thing it does is \<open>do_proxy\<close> on the descriptor it
  received, run in full.
\<close>

theorem setup_raw_failure:
  "setup_raw cfmakeraw save (Fail e # s) =
     ([Sys (Tcgetattr 0) (Fail e), Stderr ''Unable to read terminal attributes: %m''],
      Returns save s) \<and>
   (0 \<le> pty \<longrightarrow>
    fst (head_session cfmakeraw save w buf connection (Ok pty # Ok 0 # Fail e # s)) =
      [Sys (Recv_file_descriptor connection) (Ok pty), Sys (Close connection) (Ok 0),
       Sys (Tcgetattr 0) (Fail e), Stderr ''Unable to read terminal attributes: %m''] @
      fst (bind (do_proxy pty w buf) (\<lambda>w.
           bind (restore_termios save) (\<lambda>_.
           bind (sys_int (Close pty)) (\<lambda>_. return (save, w)))) s))"
proof -
  have a: "setup_raw cfmakeraw save (Fail e # s) =
     ([Sys (Tcgetattr 0) (Fail e), Stderr ''Unable to read terminal attributes: %m''],
      Returns save s)"
    by (simp add: setup_raw_def bind_def emit_def return_def)
  have b: "fst (head_session cfmakeraw save w buf connection (Ok pty # Ok 0 # Fail e # s)) =
      [Sys (Recv_file_descriptor connection) (Ok pty), Sys (Close connection) (Ok 0),
       Sys (Tcgetattr 0) (Fail e), Stderr ''Unable to read terminal attributes: %m''] @
      fst (bind (do_proxy pty w buf) (\<lambda>w.
           bind (restore_termios save) (\<lambda>_.
           bind (sys_int (Close pty)) (\<lambda>_. return (save, w)))) s)" if "0 \<le> pty"
    using that by (simp add: head_session_def setup_raw_def run)
  from a b show ?thesis by blast
qed


theorem setup_raw_failure_witness:
  "(0::int) \<le> 5 \<and>
   fst (head_session Suc None False [] 4
     [Ok 5, Ok 0, Fail ENOTTY, Ok 0, Ok 0, Fail ENOTTY, Ok 0,
      Ready [5], Bytes [104, 105], Ok 2, Ready [5], Bytes [], Fail ENOTTY]) =
     [Sys (Recv_file_descriptor 4) (Ok 5), Sys (Close 4) (Ok 0),
      Sys (Tcgetattr 0) (Fail ENOTTY), Stderr ''Unable to read terminal attributes: %m'',
      Sys Sigprocmask_block_SIGWINCH (Ok 0), Sys Sigaction_SIGWINCH (Ok 0),
      Sys (Ioctl_TIOCGWINSZ 0) (Fail ENOTTY),
      Sys (Ioctl_TIOCSWINSZ 5 \<lparr>ws_row = 30, ws_col = 80, ws_xpixel = 640, ws_ypixel = 480\<rparr>) (Ok 0),
      Sys (Pselect 6 [0, 5]) (Ready [5]), Sys (Read 5 4096) (Bytes [104, 105]),
      Sys (Write 1 [104, 105]) (Ok 2), Sys (Pselect 6 [0, 5]) (Ready [5]),
      Sys (Read 5 4096) (Bytes []), Sys (Tcsetattr 0 None) (Fail ENOTTY),
      Stderr (''[!] Unable to tcsetattr: %m'' @ nl)]"
proof -
  have h: "(0::int) \<le> 5" by simp
  have e: "fst (bind (do_proxy 5 False []) (\<lambda>w.
           bind (restore_termios (None :: nat option)) (\<lambda>_.
           bind (sys_int (Close 5)) (\<lambda>_. return (None :: nat option, w))))
           [Ok 0, Ok 0, Fail ENOTTY, Ok 0,
            Ready [5], Bytes [104, 105], Ok 2, Ready [5], Bytes [], Fail ENOTTY]) =
     [Sys Sigprocmask_block_SIGWINCH (Ok 0), Sys Sigaction_SIGWINCH (Ok 0),
      Sys (Ioctl_TIOCGWINSZ 0) (Fail ENOTTY),
      Sys (Ioctl_TIOCSWINSZ 5 \<lparr>ws_row = 30, ws_col = 80, ws_xpixel = 640, ws_ypixel = 480\<rparr>) (Ok 0),
      Sys (Pselect 6 [0, 5]) (Ready [5]), Sys (Read 5 4096) (Bytes [104, 105]),
      Sys (Write 1 [104, 105]) (Ok 2), Sys (Pselect 6 [0, 5]) (Ready [5]),
      Sys (Read 5 4096) (Bytes []), Sys (Tcsetattr 0 None) (Fail ENOTTY),
      Stderr (''[!] Unable to tcsetattr: %m'' @ nl)]"
    by code_simp
  from setup_raw_failure[of Suc None ENOTTY _ 5 False "[]" 4] h e show ?thesis
    by simp
qed

section \<open>Claims about the attacher\<close>

lemma bind_sys_int_answer:
  "int_answer a \<Longrightarrow>
   bind (sys_int c) f (a # s) = pre [Sys c a] (f (if rv_of a < 0 then Inl (case a of Fail e \<Rightarrow> e) else Inr (rv_of a)) s)"
  by (cases a) (simp_all add: run)





section \<open>Claims about the option loop\<close>

text \<open>
  C7, as stated, fails.  With \<open>-h\<close> and a command, and neither \<open>-s\<close> nor \<open>-H\<close>, \<open>main\<close> prints
  the usage and returns 0 from the option loop; with \<open>-V\<close> and a command it exits when
  no pseudo-terminal can be allocated.  In neither run is \<open>socket\<close> read.
\<close>

theorem main_no_socket_counterexample:
  "main Suc ''deptyr'' [Opt_h] [''ls''] [] [Ok 5, Ok 0, Ok 0, Name ''/dev/pts/3''] =
     ([Stderr (''Usage: deptyr -s socket CMD'' @ nl),
       Stderr (''       deptyr -S socket'' @ nl),
       Stderr (''  -H Act as the head: Proxy input and output to the program'' @ nl),
       Stderr (''  -s Connect to a running proxy and exec the program'' @ nl),
       Stderr nl],
      Stops (Exits 0)) \<and>
   main Suc ''deptyr'' [Opt_V] [''ls''] [] [Fail 2] =
     ([Sys Get_pt (Fail 2),
       Stderr (''[!] Unable to allocate a new pseudo-terminal: %m'' @ nl)],
      Stops (Exits 1))"
  by (simp add: main_def attacher_def usage_def run)

lemma bind_usage: "bind (usage me) f s = pre (usage_events me) (f () s)"
  by (simp add: usage_def usage_events_def run emit_def bind_def pre_def split: prod.splits)

lemma getopt_loop_only_V:
  "\<forall>opt\<in>set opts. opt = Opt_V \<Longrightarrow>
   \<exists>b. getopt_loop me opts v s = ([], Returns (v\<lparr>verbose := b\<rparr>) s)"
proof (induction opts arbitrary: v)
  case Nil
  show ?case by (intro exI[of _ "verbose v"]) (simp add: return_def)
next
  case (Cons opt opts)
  then have "opt = Opt_V" and rest: "\<forall>opt\<in>set opts. opt = Opt_V" by simp_all
  from Cons.IH[OF rest, of "v\<lparr>verbose := True\<rparr>"]
  obtain b where "getopt_loop me opts (v\<lparr>verbose := True\<rparr>) s = ([], Returns (v\<lparr>verbose := True, verbose := b\<rparr>) s)"
    by auto
  with \<open>opt = Opt_V\<close> show ?case by (intro exI[of _ b]) simp
qed

lemma getopt_loop_skip_V:
  "\<exists>b. getopt_loop me opts v s =
        getopt_loop me (dropWhile (\<lambda>opt. opt = Opt_V) opts) (v\<lparr>verbose := b\<rparr>) s"
proof (induction opts arbitrary: v)
  case Nil
  show ?case by (intro exI[of _ "verbose v"]) simp
next
  case (Cons opt opts)
  show ?case
  proof (cases "opt = Opt_V")
    case True
    from Cons.IH[of "v\<lparr>verbose := True\<rparr>"] obtain b where
      "getopt_loop me opts (v\<lparr>verbose := True\<rparr>) s =
       getopt_loop me (dropWhile (\<lambda>opt. opt = Opt_V) opts) (v\<lparr>verbose := True, verbose := b\<rparr>) s"
      by auto
    with True show ?thesis by (intro exI[of _ b]) simp
  next
    case False
    then show ?thesis by (intro exI[of _ "verbose v"]) simp
  qed
qed

lemma getopt_loop_h:
  "dropWhile (\<lambda>opt. opt = Opt_V) opts = Opt_h # rest \<Longrightarrow>
   getopt_loop me opts v s = (usage_events me, Stops (Exits 0))"
  using getopt_loop_skip_V[of me opts v s] by (auto simp: bind_usage stop_def)

lemma getopt_loop_other:
  "dropWhile (\<lambda>opt. opt = Opt_V) opts = Opt_other # rest \<Longrightarrow>
   getopt_loop me opts v s = (usage_events me, Stops (Exits 1))"
  using getopt_loop_skip_V[of me opts v s] by (auto simp: bind_usage stop_def)

lemma main_only_V:
  assumes "\<forall>opt\<in>set opts. opt = Opt_V" and "cmd \<noteq> []"
  shows "main cfmakeraw me opts cmd buf s = attacher None cmd s"
proof -
  obtain b where g: "getopt_loop me opts \<lparr>verbose = False, act_as_proxy = False, socket = None\<rparr> s =
     ([], Returns \<lparr>verbose = b, act_as_proxy = False, socket = None\<rparr> s)"
    using getopt_loop_only_V[OF assms(1), of me "\<lparr>verbose = False, act_as_proxy = False, socket = None\<rparr>" s]
    by auto
  show ?thesis
    unfolding main_def using assms(2)
    by (simp add: bind_pre[of "getopt_loop me opts \<lparr>verbose = False, act_as_proxy = False, socket = None\<rparr>"
          s, OF g] pre_def)
qed

text \<open>
  C7, amended.  For every invocation whose options are all \<open>-V\<close> (so neither \<open>-s\<close> nor \<open>-H\<close>,
  and neither \<open>-h\<close> nor an option that \<open>getopt\<close> rejects) and that supplies a command,
  \<open>socket\<close> is never assigned: \<open>main\<close> runs the attacher, not the head, on the unassigned
  variable.  When \<open>get_pt\<close>, \<open>unlockpt\<close> and \<open>grantpt\<close> succeed, it reaches
  \<open>send_file_descriptor(socket, pty)\<close>, where it reads the variable that was never assigned;
  when one of the three fails, it prints a message and exits with status 1 before
  \<open>socket\<close> is read.  When the first option that is not \<open>-V\<close> is \<open>-h\<close>, or one that
  \<open>getopt\<close> rejects, \<open>main\<close> prints the usage and returns from the option loop, with 0 for
  \<open>-h\<close> and 1 otherwise, and has made no call.
\<close>

theorem main_reads_unassigned_socket:
  "((\<forall>opt\<in>set opts. opt = Opt_V) \<and> cmd \<noteq> [] \<longrightarrow>
      (main cfmakeraw me opts cmd buf :: ('a, 't) prog) s = attacher None cmd s \<and>
      (0 \<le> pty \<and> (a = Name n \<or> a = Fail e) \<longrightarrow>
         (main cfmakeraw me opts cmd buf :: ('a, 't) prog) (Ok pty # Ok 0 # Ok 0 # a # s) =
           ([Sys Get_pt (Ok pty), Sys (Unlockpt pty) (Ok 0), Sys (Grantpt pty) (Ok 0),
             Sys (Ptsname_r pty) a,
             Stdout (''Opened a new pty: %s'' @ nl) (case a of Name n \<Rightarrow> Some n | _ \<Rightarrow> None)],
            Stops Uninitialized_read)) \<and>
      (main cfmakeraw me opts cmd buf :: ('a, 't) prog) (Fail e # s) =
        ([Sys Get_pt (Fail e),
          Stderr (''[!] Unable to allocate a new pseudo-terminal: %m'' @ nl)],
         Stops (Exits 1)) \<and>
      (0 \<le> pty \<longrightarrow>
         (main cfmakeraw me opts cmd buf :: ('a, 't) prog) (Ok pty # Fail e # s) =
           ([Sys Get_pt (Ok pty), Sys (Unlockpt pty) (Fail e),
             Stderr (''[!] Unable to unlockpt: %m'' @ nl)],
            Stops (Exits 1)) \<and>
         (main cfmakeraw me opts cmd buf :: ('a, 't) prog) (Ok pty # Ok 0 # Fail e # s) =
           ([Sys Get_pt (Ok pty), Sys (Unlockpt pty) (Ok 0), Sys (Grantpt pty) (Fail e),
             Stderr (''[!] Unable to grantpt: %m'' @ nl)],
            Stops (Exits 1)))) \<and>
   (dropWhile (\<lambda>opt. opt = Opt_V) opts = Opt_h # rest \<longrightarrow>
      (main cfmakeraw me opts cmd buf :: ('a, 't) prog) s = (usage_events me, Stops (Exits 0))) \<and>
   (dropWhile (\<lambda>opt. opt = Opt_V) opts = Opt_other # rest \<longrightarrow>
      (main cfmakeraw me opts cmd buf :: ('a, 't) prog) s = (usage_events me, Stops (Exits 1)))"
proof (intro conjI impI; (elim conjE)?)
  assume v: "\<forall>opt\<in>set opts. opt = Opt_V" and c: "cmd \<noteq> []"
  show "main cfmakeraw me opts cmd buf s = attacher None cmd s"
    by (rule main_only_V[OF v c])
  show "main cfmakeraw me opts cmd buf (Fail e # s) =
        ([Sys Get_pt (Fail e),
          Stderr (''[!] Unable to allocate a new pseudo-terminal: %m'' @ nl)],
         Stops (Exits 1))"
    by (simp add: main_only_V[OF v c] attacher_def run)
  {
    assume p: "0 \<le> pty"
    show "main cfmakeraw me opts cmd buf (Ok pty # Fail e # s) =
           ([Sys Get_pt (Ok pty), Sys (Unlockpt pty) (Fail e),
             Stderr (''[!] Unable to unlockpt: %m'' @ nl)],
            Stops (Exits 1))"
      using p by (simp add: main_only_V[OF v c] attacher_def run)
    show "main cfmakeraw me opts cmd buf (Ok pty # Ok 0 # Fail e # s) =
           ([Sys Get_pt (Ok pty), Sys (Unlockpt pty) (Ok 0), Sys (Grantpt pty) (Fail e),
             Stderr (''[!] Unable to grantpt: %m'' @ nl)],
            Stops (Exits 1))"
      using p by (simp add: main_only_V[OF v c] attacher_def run)
    assume a: "a = Name n \<or> a = Fail e"
    show "main cfmakeraw me opts cmd buf (Ok pty # Ok 0 # Ok 0 # a # s) =
           ([Sys Get_pt (Ok pty), Sys (Unlockpt pty) (Ok 0), Sys (Grantpt pty) (Ok 0),
             Sys (Ptsname_r pty) a,
             Stdout (''Opened a new pty: %s'' @ nl) (case a of Name n \<Rightarrow> Some n | _ \<Rightarrow> None)],
            Stops Uninitialized_read)"
      using p a by (auto simp: main_only_V[OF v c] attacher_def run)
  }
next
  assume "dropWhile (\<lambda>opt. opt = Opt_V) opts = Opt_h # rest"
  then show "main cfmakeraw me opts cmd buf s = (usage_events me, Stops (Exits 0))"
    unfolding main_def by (simp add: bind_Stops[OF getopt_loop_h])
next
  assume "dropWhile (\<lambda>opt. opt = Opt_V) opts = Opt_other # rest"
  then show "main cfmakeraw me opts cmd buf s = (usage_events me, Stops (Exits 1))"
    unfolding main_def by (simp add: bind_Stops[OF getopt_loop_other])
qed

theorem main_reads_unassigned_socket_witness:
  "(main Suc ''deptyr'' [Opt_V, Opt_V] [''ls'', ''-l''] [] :: ('a, nat) prog) [Ok 5, Ok 0, Ok 0, Name ''/dev/pts/3'', Ok 0] =
     ([Sys Get_pt (Ok 5), Sys (Unlockpt 5) (Ok 0), Sys (Grantpt 5) (Ok 0),
       Sys (Ptsname_r 5) (Name ''/dev/pts/3''),
       Stdout (''Opened a new pty: %s'' @ nl) (Some ''/dev/pts/3'')],
      Stops Uninitialized_read) \<and>
   (main Suc ''deptyr'' [Opt_V, Opt_V] [''ls'', ''-l''] [] :: ('a, nat) prog) [Ok 5, Fail 13, Ok 0] =
     ([Sys Get_pt (Ok 5), Sys (Unlockpt 5) (Fail 13),
       Stderr (''[!] Unable to unlockpt: %m'' @ nl)],
      Stops (Exits 1)) \<and>
   (main Suc ''deptyr'' [Opt_V, Opt_V] [''ls'', ''-l''] [] :: ('a, nat) prog) [Ok 5, Ok 0, Fail 13, Ok 0] =
     ([Sys Get_pt (Ok 5), Sys (Unlockpt 5) (Ok 0), Sys (Grantpt 5) (Fail 13),
       Stderr (''[!] Unable to grantpt: %m'' @ nl)],
      Stops (Exits 1)) \<and>
   (main Suc ''deptyr'' [Opt_V, Opt_h, Opt_s ''sock''] [''ls''] [] :: ('a, nat) prog) [Ok 3] =
     (usage_events ''deptyr'', Stops (Exits 0)) \<and>
   (main Suc ''deptyr'' [Opt_V, Opt_other, Opt_H ''sock''] [''ls''] [] :: ('a, nat) prog) [Ok 3] =
     (usage_events ''deptyr'', Stops (Exits 1))"
  using main_reads_unassigned_socket[where ?'a = 'a, of "[Opt_V, Opt_V]" "[''ls'', ''-l'']" Suc "''deptyr''" "[]" "[Ok 0]"
      5 "Name ''/dev/pts/3''" "''/dev/pts/3''" 13 "[]"]
    main_reads_unassigned_socket[where ?'a = 'a, of "[Opt_V, Opt_h, Opt_s ''sock'']" "[''ls'']" Suc "''deptyr''" "[]" "[Ok 3]"
      5 "Name ''/dev/pts/3''" "''/dev/pts/3''" 13 "[Opt_s ''sock'']"]
    main_reads_unassigned_socket[where ?'a = 'a, of "[Opt_V, Opt_other, Opt_H ''sock'']" "[''ls'']" Suc "''deptyr''" "[]" "[Ok 3]"
      5 "Name ''/dev/pts/3''" "''/dev/pts/3''" 13 "[Opt_H ''sock'']"]
  by simp


section \<open>Claims about the proxy loop\<close>

text \<open>
  In the statements below the descriptor of the pseudo-terminal is one that fits an
  \<open>fd_set\<close>: \<open>0 \<le> pty\<close> and \<open>pty < FD_SETSIZE\<close>.  The set handed to \<open>pselect\<close> then holds 0
  and \<open>pty\<close>, which is the list \<open>remdups [0, pty]\<close>.
\<close>

lemma bind_FD_SET:
  "0 \<le> fd \<Longrightarrow> fd < FD_SETSIZE \<Longrightarrow>
   bind (FD_SET fd fdset) f s = f (if fd \<in> set fdset then fdset else fdset @ [fd]) s"
  by (simp add: FD_SET_def bind_return)

lemma FD_SET_out_of_bounds:
  "fd < 0 \<or> FD_SETSIZE \<le> fd \<Longrightarrow> bind (FD_SET fd fdset) f s = ([], Stops Out_of_bounds)"
  by (auto simp: FD_SET_def bind_stop)

lemma proxy_iteration_selected:
  assumes "(if w then resize_pty pty else return ()) s0 = (es0, Returns () (Ready fds # s))"
    and "0 \<le> pty" and "pty < FD_SETSIZE"
  shows "proxy_iteration pty w buf s0 =
         pre (es0 @ [Sys (Pselect (pty + 1) (remdups [0, pty])) (Ready fds)])
           (bind (if 0 \<in> set fds then proxy_stdin pty buf else return (Next, buf)) (\<lambda>(flow, buf).
              if flow = Return_now then return (Return_now, False, buf)
              else
            bind (if pty \<in> set fds then proxy_pty pty buf else return (Next, buf)) (\<lambda>(flow, buf).
              return (flow, False, buf))) s)"
proof -
  have z: "(0::int) \<le> 0" "(0::int) < FD_SETSIZE" by (simp_all add: FD_SETSIZE_def)
  show ?thesis
    unfolding proxy_iteration_def FD_ISSET_def FD_ZERO_def
    by (subst bind_pre[of "if w then resize_pty pty else return ()" s0, OF assms(1)])
       (simp add: bind_FD_SET[OF z] bind_FD_SET[OF assms(2,3)] bind_sys_pselect_Ready)
qed




lemma proxy_pty_eof:
  "proxy_pty pty buf (Bytes [] # s) = ([Sys (Read pty 4096) (Bytes [])], Returns (Return_now, buf) s)"
  by (simp add: proxy_pty_def run return_def)

lemma proxy_pty_error:
  "proxy_pty pty buf (Fail e # s) = ([Sys (Read pty 4096) (Fail e)], Returns (Return_now, buf) s)"
  by (simp add: proxy_pty_def run return_def)



lemma proxy_loop_Next:
  "proxy_iteration pty w buf s = (es, Returns (Next, w', buf') s') \<Longrightarrow>
   proxy_loop pty w buf s = pre es (proxy_loop pty w' buf' s')"
  by (subst proxy_loop_step) (simp add: bind_pre[of "proxy_iteration pty w buf" s])

lemma proxy_loop_Return_now:
  "proxy_iteration pty w buf s = (es, Returns (Return_now, w', buf') s') \<Longrightarrow>
   proxy_loop pty w buf s = (es, Returns w' s')"
  by (subst proxy_loop_step) (simp add: bind_pre[of "proxy_iteration pty w buf" s] return_def)



lemma head_loop_step:
  "head_loop cfmakeraw sockvar saved_termios winch_happened buf s =
     bind (read_var sockvar) (\<lambda>sock s1.
     bind (sys_int (Accept sock)) (\<lambda>r s2.
       if 0 \<le> rv r then
         bind (head_session cfmakeraw saved_termios winch_happened buf (rv r)) (\<lambda>x s'.
           case x of (saved_termios, winch_happened) \<Rightarrow>
             head_loop cfmakeraw sockvar saved_termios winch_happened buf s') s2
       else die ''accept: %m'' s2) s1) s"
  by (rule head_loop.simps)


lemma restore_termios_Ok:
  "restore_termios saved (Ok 0 # s) = ([Sys (Tcsetattr 0 saved) (Ok 0)], Returns () s)"
  by (subst restore_termios_step) (simp add: run return_def EINTR_def)

lemma restore_termios_EINTR:
  "restore_termios saved (Fail EINTR # s) =
   pre [Sys (Tcsetattr 0 saved) (Fail EINTR)] (restore_termios saved s)"
  by (subst restore_termios_step) (simp add: run)

lemma restore_termios_die:
  "a = Fail e \<and> e \<noteq> EINTR \<or> a = Ok n \<and> 0 < n \<Longrightarrow>
   restore_termios saved (a # s) =
   ([Sys (Tcsetattr 0 saved) a, Stderr (''[!] Unable to tcsetattr: %m'' @ nl)], Stops (Exits 1))"
  by (subst restore_termios_step) (auto simp: run EINTR_def)


lemma restore_termios_retries:
  "restore_termios saved (replicate k (Fail EINTR) @ s) =
   pre (replicate k (Sys (Tcsetattr 0 saved) (Fail EINTR))) (restore_termios saved s)"
proof (induction k)
  case 0
  show ?case by (simp add: pre_def)
next
  case (Suc k)
  show ?case
    by (simp add: restore_termios_EINTR Suc.IH pre_pre)
qed

text \<open>
  C5, as stated, fails.  A session of the head enters raw mode; the read from the
  pseudo-terminal 5 returns zero bytes and \<open>do_proxy\<close> returns; \<open>tcsetattr\<close> on the saved
  attributes fails with \<open>EIO\<close>.  The head reports it and exits with status 1: it neither
  closes the descriptor nor accepts another connection.
\<close>

theorem restore_failure_counterexample:
  "EIO \<noteq> EINTR \<and>
   (head_loop Suc (Some 3) None False []
      [Ok 4, Ok 5, Ok 0, Attrs 7, Ok 0, Ok 0, Ok 0, Size \<lparr>ws_row = 24, ws_col = 80, ws_xpixel = 0, ws_ypixel = 0\<rparr>, Ok 0,
       Ready [5], Bytes [], Fail EIO, Ok 0, Ok 4]
      :: nat event list \<times> (unit, nat) result) =
     ([Sys (Accept 3) (Ok 4), Sys (Recv_file_descriptor 4) (Ok 5), Sys (Close 4) (Ok 0),
       Sys (Tcgetattr 0) (Attrs 7), Sys (Tcsetattr 0 (Some 8)) (Ok 0),
       Sys Sigprocmask_block_SIGWINCH (Ok 0), Sys Sigaction_SIGWINCH (Ok 0),
       Sys (Ioctl_TIOCGWINSZ 0) (Size \<lparr>ws_row = 24, ws_col = 80, ws_xpixel = 0, ws_ypixel = 0\<rparr>),
       Sys (Ioctl_TIOCSWINSZ 5 \<lparr>ws_row = 24, ws_col = 80, ws_xpixel = 0, ws_ypixel = 0\<rparr>) (Ok 0),
       Sys (Pselect 6 [0, 5]) (Ready [5]), Sys (Read 5 4096) (Bytes []),
       Sys (Tcsetattr 0 (Some 7)) (Fail EIO),
       Stderr (''[!] Unable to tcsetattr: %m'' @ nl)],
      Stops (Exits 1))"
  by code_simp

text \<open>
  C5, amended.  First part: in any iteration of the loop in which \<open>pselect\<close> reports the
  pseudo-terminal and the block for standard input (if it runs) does not return, a read
  from the pseudo-terminal that returns zero bytes or fails makes \<open>do_proxy\<close>'s loop return
  at once: the read is its last call.  Second part: \<open>do_proxy\<close> returns nothing to \<open>main\<close>,
  and whenever it returns in a session of the head, the head calls \<open>tcsetattr\<close> on the
  saved attributes, again after each interruption (\<open>k\<close> of them).  When the call
  succeeds, the head closes the descriptor and is back at \<open>accept\<close>.  When it fails with
  an error other than \<open>EINTR\<close>, the head reports it and exits with status 1.
\<close>

theorem pty_eof_terminates:
  "((if w then resize_pty pty else return ()) s0 = (es0, Returns () (Ready fds # s1)) \<and>
    0 \<le> pty \<and> pty < FD_SETSIZE \<and> pty \<in> set fds \<and>
    (if 0 \<in> set fds then proxy_stdin pty buf else return (Next, buf)) s1 =
      (es1, Returns (Next, buf1) (a # s2)) \<and>
    (a = Bytes [] \<or> a = Fail e) \<longrightarrow>
    proxy_loop pty w buf s0 =
      (es0 @ Sys (Pselect (pty + 1) (remdups [0, pty])) (Ready fds) # es1 @ [Sys (Read pty 4096) a],
       Returns False s2)) \<and>
   (0 \<le> connection \<and> 0 \<le> pty \<and>
    setup_raw cfmakeraw saved s3 = (es3, Returns saved' s4) \<and>
    do_proxy pty w buf s4 = (es4, Returns w' (replicate k (Fail EINTR) @ s5)) \<longrightarrow>
    (s5 = Ok 0 # c # s6 \<and> int_answer c \<longrightarrow>
     (head_loop cfmakeraw (Some sock) saved w buf (Ok connection # Ok pty # Ok 0 # s3)
        :: 't event list \<times> ('a, 't) result) =
       pre ([Sys (Accept sock) (Ok connection), Sys (Recv_file_descriptor connection) (Ok pty),
             Sys (Close connection) (Ok 0)] @ es3 @ es4 @
            replicate k (Sys (Tcsetattr 0 saved') (Fail EINTR)) @
            [Sys (Tcsetattr 0 saved') (Ok 0), Sys (Close pty) c])
         (head_loop cfmakeraw (Some sock) saved' w' buf s6)) \<and>
    (s5 = Fail e # s6 \<and> e \<noteq> EINTR \<longrightarrow>
     (head_loop cfmakeraw (Some sock) saved w buf (Ok connection # Ok pty # Ok 0 # s3)
        :: 't event list \<times> ('a, 't) result) =
       ([Sys (Accept sock) (Ok connection), Sys (Recv_file_descriptor connection) (Ok pty),
         Sys (Close connection) (Ok 0)] @ es3 @ es4 @
        replicate k (Sys (Tcsetattr 0 saved') (Fail EINTR)) @
        [Sys (Tcsetattr 0 saved') (Fail e), Stderr (''[!] Unable to tcsetattr: %m'' @ nl)],
        Stops (Exits 1))))"
proof (intro conjI impI; elim conjE)
  assume resize: "(if w then resize_pty pty else return ()) s0 = (es0, Returns () (Ready fds # s1))"
    and bounds: "0 \<le> pty" "pty < FD_SETSIZE"
    and rdy: "pty \<in> set fds"
    and stdin: "(if 0 \<in> set fds then proxy_stdin pty buf else return (Next, buf)) s1 =
      (es1, Returns (Next, buf1) (a # s2))"
    and a: "a = Bytes [] \<or> a = Fail e"
  from a have p: "proxy_pty pty buf1 (a # s2) = ([Sys (Read pty 4096) a], Returns (Return_now, buf1) s2)"
    using proxy_pty_eof proxy_pty_error by blast
  have "proxy_iteration pty w buf s0 =
      (es0 @ Sys (Pselect (pty + 1) (remdups [0, pty])) (Ready fds) # es1 @ [Sys (Read pty 4096) a],
       Returns (Return_now, False, buf1) s2)"
    unfolding proxy_iteration_selected[OF resize bounds]
    using rdy
    by (simp add: bind_pre[of "if 0 \<in> set fds then proxy_stdin pty buf else return (Next, buf)" s1, OF stdin]
          bind_pre[of "proxy_pty pty buf1" "a # s2", OF p] return_def del: remdups.simps)
  then show "proxy_loop pty w buf s0 =
      (es0 @ Sys (Pselect (pty + 1) (remdups [0, pty])) (Ready fds) # es1 @ [Sys (Read pty 4096) a],
       Returns False s2)"
    by (rule proxy_loop_Return_now)
next
  assume conn: "0 \<le> connection" and pty: "0 \<le> pty"
    and su: "setup_raw cfmakeraw saved s3 = (es3, Returns saved' s4)"
    and proxy: "do_proxy pty w buf s4 = (es4, Returns w' (replicate k (Fail EINTR) @ s5))"
    and s5: "s5 = Ok 0 # c # s6"
    and c: "int_answer c"
  have restore: "restore_termios saved' (replicate k (Fail EINTR) @ s5) =
      (replicate k (Sys (Tcsetattr 0 saved') (Fail EINTR)) @ [Sys (Tcsetattr 0 saved') (Ok 0)],
       Returns () (c # s6))"
    unfolding restore_termios_retries s5 restore_termios_Ok by (simp add: pre_def)
  have "head_session cfmakeraw saved w buf connection (Ok pty # Ok 0 # s3) =
        ([Sys (Recv_file_descriptor connection) (Ok pty), Sys (Close connection) (Ok 0)] @
         es3 @ es4 @ replicate k (Sys (Tcsetattr 0 saved') (Fail EINTR)) @
         [Sys (Tcsetattr 0 saved') (Ok 0), Sys (Close pty) c], Returns (saved', w') s6)"
    unfolding head_session_def using pty c
    by (simp add: bind_sys_int_Ok bind_sys_int_answer Let_def
          bind_pre[of "setup_raw cfmakeraw saved" s3, OF su]
          bind_pre[of "do_proxy pty w buf" s4, OF proxy]
          bind_pre[of "restore_termios saved'" "replicate k (Fail EINTR) @ s5", OF restore] return_def)
  then show "head_loop cfmakeraw (Some sock) saved w buf (Ok connection # Ok pty # Ok 0 # s3) =
      pre ([Sys (Accept sock) (Ok connection), Sys (Recv_file_descriptor connection) (Ok pty),
            Sys (Close connection) (Ok 0)] @ es3 @ es4 @
           replicate k (Sys (Tcsetattr 0 saved') (Fail EINTR)) @
           [Sys (Tcsetattr 0 saved') (Ok 0), Sys (Close pty) c])
        (head_loop cfmakeraw (Some sock) saved' w' buf s6)"
    using conn
    by (subst head_loop_step)
       (simp add: bind_return bind_sys_int_Ok
          bind_pre[of "head_session cfmakeraw saved w buf connection" "Ok pty # Ok 0 # s3"])
next
  assume conn: "0 \<le> connection" and pty: "0 \<le> pty"
    and su: "setup_raw cfmakeraw saved s3 = (es3, Returns saved' s4)"
    and proxy: "do_proxy pty w buf s4 = (es4, Returns w' (replicate k (Fail EINTR) @ s5))"
    and s5: "s5 = Fail e # s6"
    and e: "e \<noteq> EINTR"
  have d: "restore_termios saved' (Fail e # s6) =
      ([Sys (Tcsetattr 0 saved') (Fail e), Stderr (''[!] Unable to tcsetattr: %m'' @ nl)],
       Stops (Exits 1))"
    by (rule restore_termios_die[of _ e 0]) (simp add: e)
  have restore: "restore_termios saved' (replicate k (Fail EINTR) @ s5) =
      (replicate k (Sys (Tcsetattr 0 saved') (Fail EINTR)) @
       [Sys (Tcsetattr 0 saved') (Fail e), Stderr (''[!] Unable to tcsetattr: %m'' @ nl)],
       Stops (Exits 1))"
    unfolding restore_termios_retries s5 d by (simp add: pre_def)
  have "head_session cfmakeraw saved w buf connection (Ok pty # Ok 0 # s3) =
        ([Sys (Recv_file_descriptor connection) (Ok pty), Sys (Close connection) (Ok 0)] @
         es3 @ es4 @ replicate k (Sys (Tcsetattr 0 saved') (Fail EINTR)) @
         [Sys (Tcsetattr 0 saved') (Fail e), Stderr (''[!] Unable to tcsetattr: %m'' @ nl)],
         Stops (Exits 1))"
    unfolding head_session_def using pty
    by (simp add: bind_sys_int_Ok Let_def
          bind_pre[of "setup_raw cfmakeraw saved" s3, OF su]
          bind_pre[of "do_proxy pty w buf" s4, OF proxy]
          bind_Stops[of "restore_termios saved'" "replicate k (Fail EINTR) @ s5", OF restore])
  then show "head_loop cfmakeraw (Some sock) saved w buf (Ok connection # Ok pty # Ok 0 # s3) =
       ([Sys (Accept sock) (Ok connection), Sys (Recv_file_descriptor connection) (Ok pty),
         Sys (Close connection) (Ok 0)] @ es3 @ es4 @
        replicate k (Sys (Tcsetattr 0 saved') (Fail EINTR)) @
        [Sys (Tcsetattr 0 saved') (Fail e), Stderr (''[!] Unable to tcsetattr: %m'' @ nl)],
        Stops (Exits 1))"
    using conn
    by (subst head_loop_step)
       (simp add: bind_return bind_sys_int_Ok
          bind_Stops[of "head_session cfmakeraw saved w buf connection" "Ok pty # Ok 0 # s3"])
qed

theorem pty_eof_terminates_witness:
  "proxy_loop 5 False [] ([Ready [5], Bytes [], Fail EINTR, Ok 0, Ok 0, Fail 9] :: nat resp list) =
     ([Sys (Pselect 6 [0, 5]) (Ready [5]), Sys (Read 5 4096) (Bytes [])],
      Returns False [Fail EINTR, Ok 0, Ok 0, Fail 9]) \<and>
   (head_loop Suc (Some 3) None False []
      [Ok 4, Ok 5, Ok 0, Attrs 7, Ok 0, Ok 0, Ok 0,
       Size \<lparr>ws_row = 24, ws_col = 80, ws_xpixel = 0, ws_ypixel = 0\<rparr>,
       Ok 0, Ready [5], Bytes [104, 105], Ok 2, Ready [5], Bytes [], Fail EINTR, Ok 0,
       Ok 0, Fail 9]
      :: nat event list \<times> (unit, nat) result) =
     ([Sys (Accept 3) (Ok 4), Sys (Recv_file_descriptor 4) (Ok 5), Sys (Close 4) (Ok 0),
       Sys (Tcgetattr 0) (Attrs 7), Sys (Tcsetattr 0 (Some 8)) (Ok 0),
       Sys Sigprocmask_block_SIGWINCH (Ok 0), Sys Sigaction_SIGWINCH (Ok 0),
       Sys (Ioctl_TIOCGWINSZ 0) (Size \<lparr>ws_row = 24, ws_col = 80, ws_xpixel = 0, ws_ypixel = 0\<rparr>),
       Sys (Ioctl_TIOCSWINSZ 5 \<lparr>ws_row = 24, ws_col = 80, ws_xpixel = 0, ws_ypixel = 0\<rparr>) (Ok 0),
       Sys (Pselect 6 [0, 5]) (Ready [5]), Sys (Read 5 4096) (Bytes [104, 105]),
       Sys (Write 1 [104, 105]) (Ok 2), Sys (Pselect 6 [0, 5]) (Ready [5]),
       Sys (Read 5 4096) (Bytes []), Sys (Tcsetattr 0 (Some 7)) (Fail EINTR),
       Sys (Tcsetattr 0 (Some 7)) (Ok 0), Sys (Close 5) (Ok 0), Sys (Accept 3) (Fail 9),
       Stderr (''[!] accept: %m'' @ nl)],
      Stops (Exits 1)) \<and>
   proxy_loop 5 False [] ([Ready [0, 5], Bytes [104], Ok 1, Fail EIO, Fail EIO] :: nat resp list) =
     ([Sys (Pselect 6 [0, 5]) (Ready [0, 5]), Sys (Read 0 4096) (Bytes [104]),
       Sys (Write 5 [104]) (Ok 1), Sys (Read 5 4096) (Fail EIO)],
      Returns False [Fail EIO]) \<and>
   (head_loop Suc (Some 3) None False []
      [Ok 4, Ok 5, Ok 0, Attrs 7, Ok 0, Ok 0, Ok 0,
       Size \<lparr>ws_row = 24, ws_col = 80, ws_xpixel = 0, ws_ypixel = 0\<rparr>,
       Ok 0, Ready [0, 5], Bytes [104], Ok 1, Fail EIO, Fail EIO]
      :: nat event list \<times> (unit, nat) result) =
     ([Sys (Accept 3) (Ok 4), Sys (Recv_file_descriptor 4) (Ok 5), Sys (Close 4) (Ok 0),
       Sys (Tcgetattr 0) (Attrs 7), Sys (Tcsetattr 0 (Some 8)) (Ok 0),
       Sys Sigprocmask_block_SIGWINCH (Ok 0), Sys Sigaction_SIGWINCH (Ok 0),
       Sys (Ioctl_TIOCGWINSZ 0) (Size \<lparr>ws_row = 24, ws_col = 80, ws_xpixel = 0, ws_ypixel = 0\<rparr>),
       Sys (Ioctl_TIOCSWINSZ 5 \<lparr>ws_row = 24, ws_col = 80, ws_xpixel = 0, ws_ypixel = 0\<rparr>) (Ok 0),
       Sys (Pselect 6 [0, 5]) (Ready [0, 5]), Sys (Read 0 4096) (Bytes [104]),
       Sys (Write 5 [104]) (Ok 1), Sys (Read 5 4096) (Fail EIO),
       Sys (Tcsetattr 0 (Some 7)) (Fail EIO),
       Stderr (''[!] Unable to tcsetattr: %m'' @ nl)],
      Stops (Exits 1))"
proof -
  have bounds: "(0::int) \<le> 4" "(0::int) \<le> 5" "(5::int) < FD_SETSIZE" "EIO \<noteq> EINTR"
    by (simp_all add: FD_SETSIZE_def EIO_def EINTR_def)
  have a1: "(if False then resize_pty 5 else return ()) ([Ready [5], Bytes [], Fail EINTR, Ok 0, Ok 0, Fail 9] :: nat resp list) =
        ([], Returns () (Ready [5] # [Bytes [], Fail EINTR, Ok 0, Ok 0, Fail 9]))"
    by (simp add: return_def)
  have a2: "(5::int) \<in> set [5]" by simp
  have a3: "(if 0 \<in> set [5 :: int] then proxy_stdin 5 [] else return (Next, []))
              ([Bytes [], Fail EINTR, Ok 0, Ok 0, Fail 9] :: nat resp list) =
            ([], Returns (Next, []) (Bytes [] # [Fail EINTR, Ok 0, Ok 0, Fail 9]))"
    by (simp add: return_def)
  have a4: "(Bytes [] :: nat resp) = Bytes [] \<or> Bytes [] = Fail 0" by simp
  have b3: "setup_raw Suc None
      [Attrs 7, Ok 0, Ok 0, Ok 0,
       Size \<lparr>ws_row = 24, ws_col = 80, ws_xpixel = 0, ws_ypixel = 0\<rparr>,
       Ok 0, Ready [5], Bytes [104, 105], Ok 2, Ready [5], Bytes [], Fail EINTR, Ok 0,
       Ok 0, Fail 9] =
      ([Sys (Tcgetattr 0) (Attrs 7), Sys (Tcsetattr 0 (Some 8)) (Ok 0)],
       Returns (Some 7) [Ok 0, Ok 0,
       Size \<lparr>ws_row = 24, ws_col = 80, ws_xpixel = 0, ws_ypixel = 0\<rparr>,
       Ok 0, Ready [5], Bytes [104, 105], Ok 2, Ready [5], Bytes [], Fail EINTR, Ok 0,
       Ok 0, Fail 9])"
    by code_simp
  have b4: "do_proxy 5 False [] ([Ok 0, Ok 0,
       Size \<lparr>ws_row = 24, ws_col = 80, ws_xpixel = 0, ws_ypixel = 0\<rparr>,
       Ok 0, Ready [5], Bytes [104, 105], Ok 2, Ready [5], Bytes [], Fail EINTR, Ok 0,
       Ok 0, Fail 9] :: nat resp list) =
      ([Sys Sigprocmask_block_SIGWINCH (Ok 0), Sys Sigaction_SIGWINCH (Ok 0),
       Sys (Ioctl_TIOCGWINSZ 0) (Size \<lparr>ws_row = 24, ws_col = 80, ws_xpixel = 0, ws_ypixel = 0\<rparr>),
       Sys (Ioctl_TIOCSWINSZ 5 \<lparr>ws_row = 24, ws_col = 80, ws_xpixel = 0, ws_ypixel = 0\<rparr>) (Ok 0),
       Sys (Pselect 6 [0, 5]) (Ready [5]), Sys (Read 5 4096) (Bytes [104, 105]),
       Sys (Write 1 [104, 105]) (Ok 2), Sys (Pselect 6 [0, 5]) (Ready [5]),
       Sys (Read 5 4096) (Bytes [])],
       Returns False (replicate 1 (Fail EINTR) @ [Ok 0, Ok 0, Fail 9]))"
    by code_simp
  have b5: "([Ok 0, Ok 0, Fail 9] :: nat resp list) = Ok 0 # Ok 0 # [Fail 9]" by simp
  have b6: "int_answer (Ok 0 :: nat resp)" by simp
  have e: "(head_loop Suc (Some 3) (Some 7) False [] [Fail 9] :: nat event list \<times> (unit, nat) result) =
      ([Sys (Accept 3) (Fail 9), Stderr (''[!] accept: %m'' @ nl)], Stops (Exits 1))"
    by code_simp
  note inst1 = pty_eof_terminates[where ?'a = unit and w = False and pty = 5
      and ?s0.0 = "[Ready [5], Bytes [], Fail EINTR, Ok 0, Ok 0, Fail 9]"
      and ?es0.0 = "[]" and fds = "[5]" and ?s1.0 = "[Bytes [], Fail EINTR, Ok 0, Ok 0, Fail 9]" and buf = "[]"
      and ?es1.0 = "[]" and ?buf1.0 = "[]" and a = "Bytes []" and ?s2.0 = "[Fail EINTR, Ok 0, Ok 0, Fail 9]" and e = 0
      and connection = 4 and cfmakeraw = Suc and saved = None
      and ?s3.0 = "[Attrs 7, Ok 0, Ok 0, Ok 0,
         Size \<lparr>ws_row = 24, ws_col = 80, ws_xpixel = 0, ws_ypixel = 0\<rparr>,
         Ok 0, Ready [5], Bytes [104, 105], Ok 2, Ready [5], Bytes [], Fail EINTR, Ok 0,
         Ok 0, Fail 9]"
      and ?es3.0 = "[Sys (Tcgetattr 0) (Attrs 7), Sys (Tcsetattr 0 (Some 8)) (Ok 0)]"
      and saved' = "Some 7"
      and ?s4.0 = "[Ok 0, Ok 0,
         Size \<lparr>ws_row = 24, ws_col = 80, ws_xpixel = 0, ws_ypixel = 0\<rparr>,
         Ok 0, Ready [5], Bytes [104, 105], Ok 2, Ready [5], Bytes [], Fail EINTR, Ok 0,
         Ok 0, Fail 9]"
      and ?es4.0 = "[Sys Sigprocmask_block_SIGWINCH (Ok 0), Sys Sigaction_SIGWINCH (Ok 0),
         Sys (Ioctl_TIOCGWINSZ 0) (Size \<lparr>ws_row = 24, ws_col = 80, ws_xpixel = 0, ws_ypixel = 0\<rparr>),
         Sys (Ioctl_TIOCSWINSZ 5 \<lparr>ws_row = 24, ws_col = 80, ws_xpixel = 0, ws_ypixel = 0\<rparr>) (Ok 0),
         Sys (Pselect 6 [0, 5]) (Ready [5]), Sys (Read 5 4096) (Bytes [104, 105]),
         Sys (Write 1 [104, 105]) (Ok 2), Sys (Pselect 6 [0, 5]) (Ready [5]),
         Sys (Read 5 4096) (Bytes [])]"
      and w' = False and k = 1 and ?s5.0 = "[Ok 0, Ok 0, Fail 9]" and c = "Ok 0" and ?s6.0 = "[Fail 9]"
      and sock = 3]
  from inst1 a1 bounds a2 a3 a4 have p1:
    "proxy_loop 5 False [] ([Ready [5], Bytes [], Fail EINTR, Ok 0, Ok 0, Fail 9] :: nat resp list) =
     ([] @ Sys (Pselect (5 + 1) (remdups [0, 5])) (Ready [5]) # [] @ [Sys (Read 5 4096) (Bytes [])],
      Returns False [Fail EINTR, Ok 0, Ok 0, Fail 9])"
    by blast
  from inst1 bounds b3 b4 b5 b6 have p2:
    "(head_loop Suc (Some 3) None False []
      (Ok 4 # Ok 5 # Ok 0 # [Attrs 7, Ok 0, Ok 0, Ok 0,
         Size \<lparr>ws_row = 24, ws_col = 80, ws_xpixel = 0, ws_ypixel = 0\<rparr>,
         Ok 0, Ready [5], Bytes [104, 105], Ok 2, Ready [5], Bytes [], Fail EINTR, Ok 0,
         Ok 0, Fail 9])
      :: nat event list \<times> (unit, nat) result) =
      pre ([Sys (Accept 3) (Ok 4), Sys (Recv_file_descriptor 4) (Ok 5), Sys (Close 4) (Ok 0)] @
         [Sys (Tcgetattr 0) (Attrs 7), Sys (Tcsetattr 0 (Some 8)) (Ok 0)] @
         [Sys Sigprocmask_block_SIGWINCH (Ok 0), Sys Sigaction_SIGWINCH (Ok 0),
         Sys (Ioctl_TIOCGWINSZ 0) (Size \<lparr>ws_row = 24, ws_col = 80, ws_xpixel = 0, ws_ypixel = 0\<rparr>),
         Sys (Ioctl_TIOCSWINSZ 5 \<lparr>ws_row = 24, ws_col = 80, ws_xpixel = 0, ws_ypixel = 0\<rparr>) (Ok 0),
         Sys (Pselect 6 [0, 5]) (Ready [5]), Sys (Read 5 4096) (Bytes [104, 105]),
         Sys (Write 1 [104, 105]) (Ok 2), Sys (Pselect 6 [0, 5]) (Ready [5]),
         Sys (Read 5 4096) (Bytes [])] @
         replicate 1 (Sys (Tcsetattr 0 (Some 7)) (Fail EINTR)) @
         [Sys (Tcsetattr 0 (Some 7)) (Ok 0), Sys (Close 5) (Ok 0)])
        (head_loop Suc (Some 3) (Some 7) False [] [Fail 9])"
    by blast
  have c1: "(if False then resize_pty 5 else return ()) ([Ready [0, 5], Bytes [104], Ok 1, Fail EIO, Fail EIO] :: nat resp list) =
        ([], Returns () (Ready [0, 5] # [Bytes [104], Ok 1, Fail EIO, Fail EIO]))"
    by (simp add: return_def)
  have c2: "(5::int) \<in> set [0, 5]" by simp
  have c3: "(if 0 \<in> set [0, 5 :: int] then proxy_stdin 5 [] else return (Next, []))
              ([Bytes [104], Ok 1, Fail EIO, Fail EIO] :: nat resp list) =
            ([Sys (Read 0 4096) (Bytes [104]), Sys (Write 5 [104]) (Ok 1)], Returns (Next, [104]) (Fail EIO # [Fail EIO]))"
    by code_simp
  have c4: "(Fail EIO :: nat resp) = Bytes [] \<or> (Fail EIO :: nat resp) = Fail EIO" by simp
  have d3: "setup_raw Suc None
      [Attrs 7, Ok 0, Ok 0, Ok 0,
       Size \<lparr>ws_row = 24, ws_col = 80, ws_xpixel = 0, ws_ypixel = 0\<rparr>,
       Ok 0, Ready [0, 5], Bytes [104], Ok 1, Fail EIO, Fail EIO] =
      ([Sys (Tcgetattr 0) (Attrs 7), Sys (Tcsetattr 0 (Some 8)) (Ok 0)],
       Returns (Some 7) [Ok 0, Ok 0,
       Size \<lparr>ws_row = 24, ws_col = 80, ws_xpixel = 0, ws_ypixel = 0\<rparr>,
       Ok 0, Ready [0, 5], Bytes [104], Ok 1, Fail EIO, Fail EIO])"
    by code_simp
  have d4: "do_proxy 5 False [] ([Ok 0, Ok 0,
       Size \<lparr>ws_row = 24, ws_col = 80, ws_xpixel = 0, ws_ypixel = 0\<rparr>,
       Ok 0, Ready [0, 5], Bytes [104], Ok 1, Fail EIO, Fail EIO] :: nat resp list) =
      ([Sys Sigprocmask_block_SIGWINCH (Ok 0), Sys Sigaction_SIGWINCH (Ok 0),
       Sys (Ioctl_TIOCGWINSZ 0) (Size \<lparr>ws_row = 24, ws_col = 80, ws_xpixel = 0, ws_ypixel = 0\<rparr>),
       Sys (Ioctl_TIOCSWINSZ 5 \<lparr>ws_row = 24, ws_col = 80, ws_xpixel = 0, ws_ypixel = 0\<rparr>) (Ok 0),
       Sys (Pselect 6 [0, 5]) (Ready [0, 5]), Sys (Read 0 4096) (Bytes [104]),
       Sys (Write 5 [104]) (Ok 1), Sys (Read 5 4096) (Fail EIO)],
       Returns False (replicate 0 (Fail EINTR) @ [Fail EIO]))"
    by code_simp
  have d5: "([Fail EIO] :: nat resp list) = Fail EIO # []" by simp
  note inst2 = pty_eof_terminates[where ?'a = unit and w = False and pty = 5
      and ?s0.0 = "[Ready [0, 5], Bytes [104], Ok 1, Fail EIO, Fail EIO]"
      and ?es0.0 = "[]" and fds = "[0, 5]" and ?s1.0 = "[Bytes [104], Ok 1, Fail EIO, Fail EIO]" and buf = "[]"
      and ?es1.0 = "[Sys (Read 0 4096) (Bytes [104]), Sys (Write 5 [104]) (Ok 1)]" and ?buf1.0 = "[104]" and a = "Fail EIO" and ?s2.0 = "[Fail EIO]" and e = EIO
      and connection = 4 and cfmakeraw = Suc and saved = None
      and ?s3.0 = "[Attrs 7, Ok 0, Ok 0, Ok 0,
         Size \<lparr>ws_row = 24, ws_col = 80, ws_xpixel = 0, ws_ypixel = 0\<rparr>,
         Ok 0, Ready [0, 5], Bytes [104], Ok 1, Fail EIO, Fail EIO]"
      and ?es3.0 = "[Sys (Tcgetattr 0) (Attrs 7), Sys (Tcsetattr 0 (Some 8)) (Ok 0)]"
      and saved' = "Some 7"
      and ?s4.0 = "[Ok 0, Ok 0,
         Size \<lparr>ws_row = 24, ws_col = 80, ws_xpixel = 0, ws_ypixel = 0\<rparr>,
         Ok 0, Ready [0, 5], Bytes [104], Ok 1, Fail EIO, Fail EIO]"
      and ?es4.0 = "[Sys Sigprocmask_block_SIGWINCH (Ok 0), Sys Sigaction_SIGWINCH (Ok 0),
         Sys (Ioctl_TIOCGWINSZ 0) (Size \<lparr>ws_row = 24, ws_col = 80, ws_xpixel = 0, ws_ypixel = 0\<rparr>),
         Sys (Ioctl_TIOCSWINSZ 5 \<lparr>ws_row = 24, ws_col = 80, ws_xpixel = 0, ws_ypixel = 0\<rparr>) (Ok 0),
         Sys (Pselect 6 [0, 5]) (Ready [0, 5]), Sys (Read 0 4096) (Bytes [104]),
         Sys (Write 5 [104]) (Ok 1), Sys (Read 5 4096) (Fail EIO)]"
      and w' = False and k = 0 and ?s5.0 = "[Fail EIO]" and c = "Ok 0" and ?s6.0 = "[]"
      and sock = 3]
  from inst2 c1 bounds c2 c3 c4 have p3:
    "proxy_loop 5 False [] ([Ready [0, 5], Bytes [104], Ok 1, Fail EIO, Fail EIO] :: nat resp list) =
     ([] @ Sys (Pselect (5 + 1) (remdups [0, 5])) (Ready [0, 5]) # [Sys (Read 0 4096) (Bytes [104]), Sys (Write 5 [104]) (Ok 1)] @
        [Sys (Read 5 4096) (Fail EIO)],
      Returns False [Fail EIO])"
    by blast
  from inst2 bounds d3 d4 d5 have p4:
    "(head_loop Suc (Some 3) None False []
      (Ok 4 # Ok 5 # Ok 0 # [Attrs 7, Ok 0, Ok 0, Ok 0,
         Size \<lparr>ws_row = 24, ws_col = 80, ws_xpixel = 0, ws_ypixel = 0\<rparr>,
         Ok 0, Ready [0, 5], Bytes [104], Ok 1, Fail EIO, Fail EIO])
      :: nat event list \<times> (unit, nat) result) =
      ([Sys (Accept 3) (Ok 4), Sys (Recv_file_descriptor 4) (Ok 5), Sys (Close 4) (Ok 0)] @
         [Sys (Tcgetattr 0) (Attrs 7), Sys (Tcsetattr 0 (Some 8)) (Ok 0)] @
         [Sys Sigprocmask_block_SIGWINCH (Ok 0), Sys Sigaction_SIGWINCH (Ok 0),
         Sys (Ioctl_TIOCGWINSZ 0) (Size \<lparr>ws_row = 24, ws_col = 80, ws_xpixel = 0, ws_ypixel = 0\<rparr>),
         Sys (Ioctl_TIOCSWINSZ 5 \<lparr>ws_row = 24, ws_col = 80, ws_xpixel = 0, ws_ypixel = 0\<rparr>) (Ok 0),
         Sys (Pselect 6 [0, 5]) (Ready [0, 5]), Sys (Read 0 4096) (Bytes [104]),
         Sys (Write 5 [104]) (Ok 1), Sys (Read 5 4096) (Fail EIO)] @
         replicate 0 (Sys (Tcsetattr 0 (Some 7)) (Fail EINTR)) @
         [Sys (Tcsetattr 0 (Some 7)) (Fail EIO), Stderr (''[!] Unable to tcsetattr: %m'' @ nl)],
       Stops (Exits 1))"
    by blast
  from p1 p2 p3 p4 show ?thesis by (simp add: e pre_def)
qed

lemma bind_pre_shift: "m s = pre es (m' s') \<Longrightarrow> bind m f s = pre es (bind m' f s')"
  by (cases "m' s'") (auto simp: bind_def pre_def split: result.splits prod.splits)

lemma proxy_loop_Stops:
  "proxy_iteration pty w buf s = (es, Stops x) \<Longrightarrow> proxy_loop pty w buf s = (es, Stops x)"
  by (subst proxy_loop_step) (simp add: bind_Stops[of "proxy_iteration pty w buf" s])

text \<open>
  C1, as stated, fails.  Standard input delivers \<open>ab\<close>; the write to the
  pseudo-terminal 5 fails with \<open>EIO\<close>; the loop stays active: it waits again, reads \<open>c\<close>,
  writes it, and waits again.
\<close>

theorem write_failure_counterexample:
  "EIO \<noteq> EINTR \<and>
   proxy_loop 5 False []
     [Ready [0], Bytes [97, 98], Fail EIO, Ready [0], Bytes [99], Ok 1 :: unit resp] =
     ([Sys (Pselect 6 [0, 5]) (Ready [0]), Sys (Read 0 4096) (Bytes [97, 98]),
       Sys (Write 5 [97, 98]) (Fail EIO),
       Sys (Pselect 6 [0, 5]) (Ready [0]), Sys (Read 0 4096) (Bytes [99]),
       Sys (Write 5 [99]) (Ok 1)],
      Stops (Pending (Pselect 6 [0, 5])))"
  by code_simp

text \<open>
  C1, amended.  After a successful read from standard input the bytes read are handed
  to \<open>writeall\<close> for the pseudo-terminal master: every \<open>write\<close> is given the bytes not yet
  written, so that short and interrupted writes are made up for, and the bytes are
  written in full unless a \<open>write\<close> fails with an error other than \<open>EINTR\<close>; \<open>writeall\<close> stops
  at the first such failure, with a proper prefix written.  The loop does not look at
  the result of \<open>writeall\<close>: whenever \<open>writeall\<close> returns, after a failure too, the
  iteration goes on in the same way.  If the pseudo-terminal was not reported by
  \<open>pselect\<close>, the loop is back at its top.  If it was, the block for the pseudo-terminal
  runs next, and the loop ends in this iteration only if that block returns.
\<close>

theorem stdin_relay:
  assumes "length bs \<le> 4096" and "proxy_stdin pty buf (Bytes bs # s) = (es, r)"
  shows "\<exists>es'. es = Sys (Read 0 4096) (Bytes bs) # es' \<and> resumes pty bs es' \<and>
           (if \<exists>e\<in>set es'. hard_failure e
            then hard_failure (last es') \<and> (\<forall>e\<in>set (butlast es'). \<not> hard_failure e) \<and>
                 strict_prefix (written pty es') bs \<and>
                 (\<exists>s'. r = Returns (Next, bs @ drop (length bs) buf) s')
            else (written pty es' = bs \<and> (\<exists>s'. r = Returns (Next, bs @ drop (length bs) buf) s')) \<or>
                 (strict_prefix (written pty es') bs \<and>
                  r = Stops (Pending (Write pty (drop (length (written pty es')) bs))))) \<and>
           (\<forall>w s0 es0 fds x s'.
              (if w then resize_pty pty else return ()) s0 =
                (es0, Returns () (Ready fds # Bytes bs # s)) \<and>
              0 \<le> pty \<and> pty < FD_SETSIZE \<and> 0 \<in> set fds \<and> r = Returns x s' \<longrightarrow>
              proxy_loop pty w buf s0 =
                pre (es0 @ Sys (Pselect (pty + 1) (remdups [0, pty])) (Ready fds) # es)
                  (if pty \<in> set fds
                   then bind (proxy_pty pty (bs @ drop (length bs) buf)) (\<lambda>y s''.
                          case y of (flow, buf') \<Rightarrow>
                            if flow = Return_now then return False s''
                            else proxy_loop pty False buf' s'') s'
                   else proxy_loop pty False (bs @ drop (length bs) buf) s'))"
proof -
  let ?buf = "bs @ drop (length bs) buf"
  obtain es' r' where w: "writeall pty ?buf (int (length bs)) s = (es', r')"
    by (cases "writeall pty ?buf (int (length bs)) s")
  have "writeall_post pty (take (nat (int (length bs))) ?buf) (writeall pty ?buf (int (length bs)) s)"
    by (rule writeall_trace) simp_all
  then have post: "writeall_post pty bs (es', r')"
    using w by simp
  have run: "proxy_stdin pty buf (Bytes bs # s) =
      pre [Sys (Read 0 4096) (Bytes bs)] (bind (writeall pty ?buf (int (length bs))) (\<lambda>_. return (Next, ?buf)) s)"
    using assms(1) by (simp add: proxy_stdin_def run)
  have es: "es = Sys (Read 0 4096) (Bytes bs) # es'"
    and r: "r = (case r' of Returns v s' \<Rightarrow> Returns (Next, ?buf) s' | Stops x \<Rightarrow> Stops x)"
    using assms(2) w unfolding run
    by (auto simp: bind_def return_def split: result.splits)
  have res: "resumes pty bs es'" using post by (simp add: writeall_post_def)
  have shape: "if \<exists>e\<in>set es'. hard_failure e
            then hard_failure (last es') \<and> (\<forall>e\<in>set (butlast es'). \<not> hard_failure e) \<and>
                 strict_prefix (written pty es') bs \<and>
                 (\<exists>s'. r = Returns (Next, ?buf) s')
            else (written pty es' = bs \<and> (\<exists>s'. r = Returns (Next, ?buf) s')) \<or>
                 (strict_prefix (written pty es') bs \<and>
                  r = Stops (Pending (Write pty (drop (length (written pty es')) bs))))"
  proof (cases r')
    case (Returns v s')
    with post consider
      (all) "v = 0" "written pty es' = bs" "\<forall>e\<in>set es'. \<not> hard_failure e"
      | (err) "v = - 1" "es' \<noteq> []" "hard_failure (last es')" "\<forall>e\<in>set (butlast es'). \<not> hard_failure e"
          "strict_prefix (written pty es') bs"
      unfolding writeall_post_def by auto
    then show ?thesis
    proof cases
      case all
      with r Returns show ?thesis by simp
    next
      case err
      have "last es' \<in> set es'" using err(2) by simp
      with err(3) have "\<exists>e\<in>set es'. hard_failure e" by blast
      with err r Returns show ?thesis by simp
    qed
  next
    case (Stops x)
    with post r show ?thesis by (simp add: writeall_post_def)
  qed
  have loop: "proxy_loop pty w buf s0 =
                pre (es0 @ Sys (Pselect (pty + 1) (remdups [0, pty])) (Ready fds) # es)
                  (if pty \<in> set fds
                   then bind (proxy_pty pty ?buf) (\<lambda>y s''.
                          case y of (flow, buf') \<Rightarrow>
                            if flow = Return_now then return False s''
                            else proxy_loop pty False buf' s'') s'
                   else proxy_loop pty False ?buf s')"
    if h: "(if w then resize_pty pty else return ()) s0 = (es0, Returns () (Ready fds # Bytes bs # s))"
      "0 \<le> pty" "pty < FD_SETSIZE" "0 \<in> set fds" "r = Returns x s'" for w s0 es0 fds x s'
  proof -
    let ?sel = "Sys (Pselect (pty + 1) (remdups [0, pty])) (Ready fds)"
    from h(5) shape have x: "x = (Next, ?buf)" by (auto split: if_splits)
    note stdin = assms(2)[unfolded h(5) x]
    show ?thesis
    proof (cases "pty \<in> set fds")
      case False
      have "proxy_iteration pty w buf s0 = (es0 @ ?sel # es, Returns (Next, False, ?buf) s')"
        unfolding proxy_iteration_selected[OF h(1,2,3)] using h(4) False
        by (simp add: bind_pre[of "proxy_stdin pty buf" "Bytes bs # s", OF stdin]
              bind_return return_def del: remdups.simps)
      then have "proxy_loop pty w buf s0 = pre (es0 @ ?sel # es) (proxy_loop pty False ?buf s')"
        by (rule proxy_loop_Next)
      with False show ?thesis by simp
    next
      case True
      obtain es2 r2 where pp: "proxy_pty pty ?buf s' = (es2, r2)" by (cases "proxy_pty pty ?buf s'")
      have it: "proxy_iteration pty w buf s0 =
          pre (es0 @ ?sel # es) (bind (proxy_pty pty ?buf) (\<lambda>(flow, b). return (flow, False, b)) s')"
        unfolding proxy_iteration_selected[OF h(1,2,3)] using h(4) True
        by (simp add: bind_pre[of "proxy_stdin pty buf" "Bytes bs # s", OF stdin] pre_pre
              del: remdups.simps)
      have "proxy_loop pty w buf s0 =
          pre (es0 @ ?sel # es) (bind (proxy_pty pty ?buf) (\<lambda>y s''.
                          case y of (flow, buf') \<Rightarrow>
                            if flow = Return_now then return False s''
                            else proxy_loop pty False buf' s'') s')"
      proof (cases r2)
        case (Stops y)
        from it have "proxy_iteration pty w buf s0 = (es0 @ ?sel # es @ es2, Stops y)"
          by (simp add: bind_Stops[of "proxy_pty pty ?buf" s', OF pp[unfolded Stops]] pre_def
                del: remdups.simps)
        then have "proxy_loop pty w buf s0 = (es0 @ ?sel # es @ es2, Stops y)"
          by (rule proxy_loop_Stops)
        then show ?thesis
          by (simp add: bind_Stops[of "proxy_pty pty ?buf" s', OF pp[unfolded Stops]] pre_def
                del: remdups.simps)
      next
        case (Returns y s2)
        obtain flow b where y: "y = (flow, b)" by (cases y)
        note pp' = pp[unfolded Returns y]
        from it have it': "proxy_iteration pty w buf s0 =
            (es0 @ ?sel # es @ es2, Returns (flow, False, b) s2)"
          by (simp add: bind_pre[of "proxy_pty pty ?buf" s', OF pp'] pre_def return_def
                del: remdups.simps)
        show ?thesis
        proof (cases flow)
          case Next
          from it'[unfolded Next] have "proxy_loop pty w buf s0 =
              pre (es0 @ ?sel # es @ es2) (proxy_loop pty False b s2)"
            by (rule proxy_loop_Next)
          then show ?thesis
            by (simp add: bind_pre[of "proxy_pty pty ?buf" s', OF pp'] Next pre_def
                  del: remdups.simps)
        next
          case Return_now
          from it'[unfolded Return_now] have "proxy_loop pty w buf s0 =
              (es0 @ ?sel # es @ es2, Returns False s2)"
            by (rule proxy_loop_Return_now)
          then show ?thesis
            by (simp add: bind_pre[of "proxy_pty pty ?buf" s', OF pp'] Return_now pre_def return_def
                  del: remdups.simps)
        qed
      qed
      with True show ?thesis by simp
    qed
  qed
  from es res shape loop show ?thesis by blast
qed

theorem stdin_relay_witness:
  "length [97, 98 :: byte] \<le> 4096 \<and>
   proxy_stdin 5 [] (Bytes [97, 98] # [Fail EIO, Ready [0], Bytes [99], Ok 1 :: unit resp]) =
     ([Sys (Read 0 4096) (Bytes [97, 98]), Sys (Write 5 [97, 98]) (Fail EIO)],
      Returns (Next, [97, 98]) [Ready [0], Bytes [99], Ok 1]) \<and>
   proxy_loop 5 False [] [Ready [0], Bytes [97, 98], Fail EIO, Ready [0], Bytes [99], Ok 1 :: unit resp] =
     pre [Sys (Pselect 6 [0, 5]) (Ready [0]), Sys (Read 0 4096) (Bytes [97, 98]),
          Sys (Write 5 [97, 98]) (Fail EIO)]
       (proxy_loop 5 False [97, 98] [Ready [0], Bytes [99], Ok 1]) \<and>
   proxy_loop 5 False [] [Ready [0, 5], Bytes [97, 98], Fail EIO, Bytes [], Ok 7 :: unit resp] =
     ([Sys (Pselect 6 [0, 5]) (Ready [0, 5]), Sys (Read 0 4096) (Bytes [97, 98]),
       Sys (Write 5 [97, 98]) (Fail EIO), Sys (Read 5 4096) (Bytes [])],
      Returns False [Ok 7])"
proof -
  have h1: "length [97, 98 :: byte] \<le> 4096" by simp
  have h2: "proxy_stdin 5 [] (Bytes [97, 98] # [Fail EIO, Ready [0], Bytes [99], Ok 1 :: unit resp]) =
     ([Sys (Read 0 4096) (Bytes [97, 98]), Sys (Write 5 [97, 98]) (Fail EIO)],
      Returns (Next, [97, 98]) [Ready [0], Bytes [99], Ok 1])"
    by code_simp
  have h3: "proxy_stdin 5 [] (Bytes [97, 98] # [Fail EIO, Bytes [], Ok 7 :: unit resp]) =
     ([Sys (Read 0 4096) (Bytes [97, 98]), Sys (Write 5 [97, 98]) (Fail EIO)],
      Returns (Next, [97, 98]) [Bytes [], Ok 7])"
    by code_simp
  have bounds: "(0::int) \<le> 5" "(5::int) < FD_SETSIZE" by (simp_all add: FD_SETSIZE_def)
  have r1: "(if False then resize_pty 5 else return ())
              [Ready [0], Bytes [97, 98], Fail EIO, Ready [0], Bytes [99], Ok 1 :: unit resp] =
            ([], Returns () (Ready [0] # Bytes [97, 98] # [Fail EIO, Ready [0], Bytes [99], Ok 1]))"
    by (simp add: return_def)
  have r2: "(if False then resize_pty 5 else return ())
              [Ready [0, 5], Bytes [97, 98], Fail EIO, Bytes [], Ok 7 :: unit resp] =
            ([], Returns () (Ready [0, 5] # Bytes [97, 98] # [Fail EIO, Bytes [], Ok 7]))"
    by (simp add: return_def)
  from stdin_relay[OF h1 h2] have "\<forall>w s0 es0 fds x s'.
      (if w then resize_pty 5 else return ()) s0 =
        (es0, Returns () (Ready fds # Bytes [97, 98] # [Fail EIO, Ready [0], Bytes [99], Ok 1])) \<and>
      (0::int) \<le> 5 \<and> 5 < FD_SETSIZE \<and> 0 \<in> set fds \<and>
      (Returns (Next, [97, 98]) [Ready [0], Bytes [99], Ok 1] :: (flow \<times> byte list, unit) result) =
        Returns x s' \<longrightarrow>
      proxy_loop 5 w [] s0 =
        pre (es0 @ Sys (Pselect (5 + 1) (remdups [0, 5])) (Ready fds) #
               [Sys (Read 0 4096) (Bytes [97, 98]), Sys (Write 5 [97, 98]) (Fail EIO)])
          (if 5 \<in> set fds
           then bind (proxy_pty 5 ([97, 98] @ drop (length [97, 98 :: byte]) [])) (\<lambda>y s''.
                  case y of (flow, buf') \<Rightarrow>
                    if flow = Return_now then return False s''
                    else proxy_loop 5 False buf' s'') s'
           else proxy_loop 5 False ([97, 98] @ drop (length [97, 98 :: byte]) []) s')"
    by (elim exE conjE)
  from this[rule_format, of False _ "[]" "[0]", OF conjI[OF r1 conjI[OF bounds(1) conjI[OF bounds(2)]]]]
  have p1: "proxy_loop 5 False [] [Ready [0], Bytes [97, 98], Fail EIO, Ready [0], Bytes [99], Ok 1 :: unit resp] =
     pre [Sys (Pselect 6 [0, 5]) (Ready [0]), Sys (Read 0 4096) (Bytes [97, 98]),
          Sys (Write 5 [97, 98]) (Fail EIO)]
       (proxy_loop 5 False [97, 98] [Ready [0], Bytes [99], Ok 1])"
    by simp
  from stdin_relay[OF h1 h3] have "\<forall>w s0 es0 fds x s'.
      (if w then resize_pty 5 else return ()) s0 =
        (es0, Returns () (Ready fds # Bytes [97, 98] # [Fail EIO, Bytes [], Ok 7])) \<and>
      (0::int) \<le> 5 \<and> 5 < FD_SETSIZE \<and> 0 \<in> set fds \<and>
      (Returns (Next, [97, 98]) [Bytes [], Ok 7] :: (flow \<times> byte list, unit) result) =
        Returns x s' \<longrightarrow>
      proxy_loop 5 w [] s0 =
        pre (es0 @ Sys (Pselect (5 + 1) (remdups [0, 5])) (Ready fds) #
               [Sys (Read 0 4096) (Bytes [97, 98]), Sys (Write 5 [97, 98]) (Fail EIO)])
          (if 5 \<in> set fds
           then bind (proxy_pty 5 ([97, 98] @ drop (length [97, 98 :: byte]) [])) (\<lambda>y s''.
                  case y of (flow, buf') \<Rightarrow>
                    if flow = Return_now then return False s''
                    else proxy_loop 5 False buf' s'') s'
           else proxy_loop 5 False ([97, 98] @ drop (length [97, 98 :: byte]) []) s')"
    by (elim exE conjE)
  from this[rule_format, of False _ "[]" "[0, 5]", OF conjI[OF r2 conjI[OF bounds(1) conjI[OF bounds(2)]]]]
  have p2: "proxy_loop 5 False [] [Ready [0, 5], Bytes [97, 98], Fail EIO, Bytes [], Ok 7 :: unit resp] =
     ([Sys (Pselect 6 [0, 5]) (Ready [0, 5]), Sys (Read 0 4096) (Bytes [97, 98]),
       Sys (Write 5 [97, 98]) (Fail EIO), Sys (Read 5 4096) (Bytes [])],
      Returns False [Ok 7])"
    by (simp add: bind_pre[of "proxy_pty 5 [97, 98]" "[Bytes [], Ok 7]", OF proxy_pty_eof] pre_def return_def)
  from h1 h2 p1 p2 show ?thesis by (intro conjI)
qed


section \<open>Claims about restoring the terminal\<close>

lemma harmless_at_bind:
  assumes "harmless_at m s" and "\<And>es a s'. m s = (es, Returns a s') \<Longrightarrow> harmless_at (f a) s'"
  shows "harmless_at (bind m f) s"
proof (cases "m s")
  case (Pair es r)
  show ?thesis
  proof (cases r)
    case (Returns a s')
    with Pair assms(2) have "harmless_at (f a) s'" by simp
    with assms(1) Pair Returns show ?thesis
      by (auto simp: harmless_at_def bind_def split: prod.splits)
  next
    case (Stops x)
    with assms(1) Pair show ?thesis by (simp add: harmless_at_def bind_def)
  qed
qed

lemma harmless_at_return [simp]: "harmless_at (return a) s"
  by (simp add: harmless_at_def return_def)

lemma harmless_at_Stderr [simp]: "harmless_at (emit (Stderr msg)) s"
  by (simp add: harmless_at_def emit_def)

lemma harmless_at_sys_int:
  "\<not> is_tcsetattr (Sys c (Ok 0)) \<Longrightarrow> harmless_at (sys_int c) s"
proof (cases s)
  case Nil
  then show ?thesis by (simp add: harmless_at_def)
next
  case (Cons a s')
  assume "\<not> is_tcsetattr (Sys c (Ok 0))"
  then have "\<not> is_tcsetattr (Sys c a)" for a :: "'a resp" by (cases c) simp_all
  with Cons show ?thesis by (cases a) (simp_all add: harmless_at_def)
qed

lemma harmless_at_sys_write [simp]: "harmless_at (sys_write fd buf count) s"
proof (cases s)
  case Nil
  then show ?thesis by (simp add: harmless_at_def)
next
  case (Cons a s')
  then show ?thesis by (cases a) (simp_all add: harmless_at_def)
qed

lemma harmless_at_sys_read [simp]: "harmless_at (sys_read fd buf n) s"
proof (cases s)
  case Nil
  then show ?thesis by (simp add: harmless_at_def)
next
  case (Cons a s')
  then show ?thesis by (cases a) (simp_all add: harmless_at_def)
qed

lemma harmless_at_sys_gwinsz [simp]: "harmless_at (sys_gwinsz fd) s"
proof (cases s)
  case Nil
  then show ?thesis by (simp add: harmless_at_def)
next
  case (Cons a s')
  then show ?thesis by (cases a) (simp_all add: harmless_at_def)
qed

lemma harmless_at_sys_pselect [simp]: "harmless_at (sys_pselect nfds fdset) s"
proof (cases s)
  case Nil
  then show ?thesis by (simp add: harmless_at_def)
next
  case (Cons a s')
  then show ?thesis by (cases a) (simp_all add: harmless_at_def)
qed

lemma harmless_at_writeall [simp]: "harmless_at (writeall fd buf count) s"
proof (induction fd buf count s rule: writeall.induct)
  case (1 fd buf count s)
  show ?case
  proof (cases "count > 0")
    case False
    then show ?thesis by (simp add: harmless_at_def writeall_done return_def)
  next
    case True
    have "harmless_at (bind (sys_write fd buf count) (\<lambda>r s'.
          if rv r < 0 then
            (if errno_of r = EINTR then writeall fd buf count s'
             else return (rv r) s')
          else writeall fd (drop (nat (rv r)) buf) (count - rv r) s')) s"
    proof (rule harmless_at_bind)
      show "harmless_at (sys_write fd buf count) s" by simp
    next
      fix es a s'
      assume w: "sys_write fd buf count s = (es, Returns a s')"
      show "harmless_at (\<lambda>s'. if rv a < 0 then
            (if errno_of a = EINTR then writeall fd buf count s'
             else return (rv a) s')
          else writeall fd (drop (nat (rv a)) buf) (count - rv a) s') s'"
        using "1.IH"(1)[OF True w] "1.IH"(2)[OF True w]
        by (auto simp: harmless_at_def return_def)
    qed
    then show ?thesis
      unfolding harmless_at_def writeall_step[OF True, of fd buf s] .
  qed
qed

lemma harmless_at_resize_pty [simp]: "harmless_at (resize_pty pty) s"
  unfolding resize_pty_def
  by (intro harmless_at_bind harmless_at_sys_gwinsz)
     (auto split: sum.splits intro!: harmless_at_bind harmless_at_sys_int)

lemma harmless_at_proxy_stdin [simp]: "harmless_at (proxy_stdin pty buf) s"
  unfolding proxy_stdin_def
  by (intro harmless_at_bind harmless_at_sys_read)
     (auto split: prod.splits intro!: harmless_at_bind)

lemma harmless_at_proxy_pty [simp]: "harmless_at (proxy_pty pty buf) s"
  unfolding proxy_pty_def
  by (intro harmless_at_bind harmless_at_sys_read)
     (auto split: prod.splits intro!: harmless_at_bind)










end
